theory Spec2Isabelle
  imports Main
begin

section \<open>BLAS-based volumetric convolution: nnconv3d_blas.hpp\<close>

text \<open>
  The two functions of the file, \<^verbatim>\<open>nnconv3d_forward_blas\<close> and
  \<^verbatim>\<open>nnconv3d_backward_blas\<close>, are embedded with explicit state passing.
  Tensor elements are taken from a commutative semiring (exact arithmetic): rounding of
  single and double precision numbers is not modelled, and neither is overflow of the
  index arithmetic. Every collaborator that is declared outside this file (the context,
  the unfold and fold transforms, the dense multiply and reduce routines, the observers
  of the tensor class) is a parameter of the model.
\<close>

subsection \<open>Status codes and element types\<close>

text \<open>\<^verbatim>\<open>vl::Error\<close>: the file only names \<^verbatim>\<open>vlSuccess\<close>; every other
  enumerator is a failure code.\<close>

datatype Error = vlSuccess | vlFailure nat

text \<open>\<^verbatim>\<open>vl::Type\<close>, the template parameter \<^verbatim>\<open>dataType\<close>; its traits give the
  element type \<^verbatim>\<open>type\<close> (float or double).\<close>

datatype Type = vlTypeFloat | vlTypeDouble

fun sizeofType :: "Type \<Rightarrow> nat" where
  "sizeofType vlTypeFloat = 4"
| "sizeofType vlTypeDouble = 8"

text \<open>What C++ leaves undefined, or aborts on, is an outcome of its own.\<close>

datatype Undefined = AssertionFailure | DivisionByZero | UninitializedError

subsection \<open>Tensors\<close>

text \<open>A tensor is seen through the observers the file calls. \<open>nonNull\<close> is the
  conversion to \<^verbatim>\<open>bool\<close> tested by \<^verbatim>\<open>if (biases)\<close> and \<^verbatim>\<open>assert(output)\<close>;
  \<open>getMemory\<close> is the backing storage, a map from element index to value.\<close>

record 'a Tensor =
  nonNull :: bool
  getDimension :: "nat \<Rightarrow> nat"
  getDepth :: nat
  getNumElements :: nat
  getMemory :: "nat \<Rightarrow> 'a"

text \<open>A pointer displaced by \<open>off\<close> elements, as in
  \<^verbatim>\<open>(type*)data.getMemory() + dataOffset\<close>, for an operand that is only read.\<close>

definition offset_ptr :: "(nat \<Rightarrow> 'a) \<Rightarrow> nat \<Rightarrow> nat \<Rightarrow> 'a" where
  "offset_ptr mem off = (\<lambda>i. mem (off + i))"

text \<open>\<^verbatim>\<open>dataOffset\<close>, \<^verbatim>\<open>outputOffset\<close>, \<^verbatim>\<open>derOutputOffset\<close> and
  \<^verbatim>\<open>derDataOffset\<close>: the volume of one image times the image index.\<close>

definition imageOffset :: "'a Tensor \<Rightarrow> nat \<Rightarrow> nat" where
  "imageOffset t img =
     (getDimension t 0 * getDimension t 1 * getDimension t 2 * getDimension t 3) * img"

subsection \<open>Calls of the external primitives\<close>

record Geometry =
  strideY :: int
  strideX :: int
  strideT :: int
  padTop :: int
  padBottom :: int
  padLeft :: int
  padRight :: int
  padT :: int

text \<open>The arguments of \<^verbatim>\<open>vol2row\<close> and
  \<^verbatim>\<open>row2vol\<close> apart from the two pointers.\<close>

record vol_call =
  vol_height :: nat
  vol_width :: nat
  vol_depth :: nat
  vol_channels :: nat
  win_height :: nat
  win_width :: nat
  win_depth :: nat
  vol_geometry :: Geometry

text \<open>The arguments of \<^verbatim>\<open>blas::gemm\<close>. Pointers into a buffer are element offsets.
  \<open>gemm_alphaType\<close> and \<open>gemm_betaType\<close> record the declared type of the local
  variables \<^verbatim>\<open>alpha\<close> and \<^verbatim>\<open>beta\<close> at the call site.\<close>

record 'a gemm_call =
  gemm_transA :: char
  gemm_transB :: char
  gemm_m :: nat
  gemm_n :: nat
  gemm_k :: nat
  gemm_alpha :: 'a
  gemm_alphaType :: Type
  gemm_offA :: nat
  gemm_lda :: nat
  gemm_offB :: nat
  gemm_ldb :: nat
  gemm_beta :: 'a
  gemm_betaType :: Type
  gemm_offC :: nat
  gemm_ldc :: nat

text \<open>The arguments of \<^verbatim>\<open>blas::gemv\<close>.\<close>

record 'a gemv_call =
  gemv_trans :: char
  gemv_m :: nat
  gemv_n :: nat
  gemv_alpha :: 'a
  gemv_alphaType :: Type
  gemv_offA :: nat
  gemv_lda :: nat
  gemv_incx :: nat
  gemv_beta :: 'a
  gemv_betaType :: Type
  gemv_incy :: nat

datatype 'a primitive =
  Vol2row vol_call
| Row2vol vol_call
| Gemm "'a gemm_call"
| Gemv "'a gemv_call"

text \<open>One entry of the log of primitive calls: the image being processed, the call and
  the status it returned.\<close>

type_synonym 'a event = "nat \<times> 'a primitive \<times> Error"

text \<open>The context and the primitives, all declared outside this file. A buffer request
  answers \<open>None\<close> for \<^verbatim>\<open>NULL\<close>. A primitive gets its operands and the prior
  contents of its destination, and answers a status and the new contents:
  \<open>vol2row ctx call src dst\<close>, \<open>row2vol ctx call dst dstOffset src\<close>,
  \<open>gemm ctx call A B C\<close> and \<open>gemv ctx call A x y\<close>.\<close>

record 'a Context =
  getWorkspace :: "nat \<Rightarrow> (nat \<Rightarrow> 'a) option"
  getAllOnes :: "Type \<Rightarrow> nat \<Rightarrow> (nat \<Rightarrow> 'a) option"
  getLastError :: Error
  passError :: "Error \<Rightarrow> Error"
  vol2row :: "vol_call \<Rightarrow> (nat \<Rightarrow> 'a) \<Rightarrow> (nat \<Rightarrow> 'a) \<Rightarrow> Error \<times> (nat \<Rightarrow> 'a)"
  row2vol :: "vol_call \<Rightarrow> (nat \<Rightarrow> 'a) \<Rightarrow> nat \<Rightarrow> (nat \<Rightarrow> 'a) \<Rightarrow> Error \<times> (nat \<Rightarrow> 'a)"
  gemm :: "'a gemm_call \<Rightarrow> (nat \<Rightarrow> 'a) \<Rightarrow> (nat \<Rightarrow> 'a) \<Rightarrow> (nat \<Rightarrow> 'a) \<Rightarrow> Error \<times> (nat \<Rightarrow> 'a)"
  gemv :: "'a gemv_call \<Rightarrow> (nat \<Rightarrow> 'a) \<Rightarrow> (nat \<Rightarrow> 'a) \<Rightarrow> (nat \<Rightarrow> 'a) \<Rightarrow> Error \<times> (nat \<Rightarrow> 'a)"

subsection \<open>Reference semantics of the dense primitives\<close>

text \<open>Modelled from the spec: the multiply primitive (blashelper.hpp) is not part of
  this file. \<^verbatim>\<open>multiplyAccumulate(transA, transB, m, n, k, alpha, A, lda, B, ldb, beta, C, ldc)\<close>
  is a dense matrix-matrix product with alpha on the product and beta on the
  destination's prior contents; storage is column-major with the given leading
  dimensions, as the diagram of the file lays \<^verbatim>\<open>temp\<close> out.\<close>

definition gemm_opA :: "'a gemm_call \<Rightarrow> (nat \<Rightarrow> 'a) \<Rightarrow> nat \<Rightarrow> nat \<Rightarrow> 'a" where
  "gemm_opA c A i l =
     (if gemm_transA c = CHR ''n'' then A (gemm_offA c + i + gemm_lda c * l)
      else A (gemm_offA c + l + gemm_lda c * i))"

definition gemm_opB :: "'a gemm_call \<Rightarrow> (nat \<Rightarrow> 'a) \<Rightarrow> nat \<Rightarrow> nat \<Rightarrow> 'a" where
  "gemm_opB c B l j =
     (if gemm_transB c = CHR ''n'' then B (gemm_offB c + l + gemm_ldb c * j)
      else B (gemm_offB c + j + gemm_ldb c * l))"

definition gemm_ref ::
  "('a::comm_semiring_1) gemm_call \<Rightarrow> (nat \<Rightarrow> 'a) \<Rightarrow> (nat \<Rightarrow> 'a) \<Rightarrow> (nat \<Rightarrow> 'a) \<Rightarrow> nat \<Rightarrow> 'a" where
  "gemm_ref c A B C = (\<lambda>idx.
     if gemm_offC c \<le> idx \<and> 0 < gemm_ldc c
        \<and> (idx - gemm_offC c) mod gemm_ldc c < gemm_m c
        \<and> (idx - gemm_offC c) div gemm_ldc c < gemm_n c
     then gemm_alpha c *
            (\<Sum>l<gemm_k c. gemm_opA c A ((idx - gemm_offC c) mod gemm_ldc c) l
                            * gemm_opB c B l ((idx - gemm_offC c) div gemm_ldc c))
          + gemm_beta c * C idx
     else C idx)"

text \<open>Modelled from the spec: the reduce primitive (blashelper.hpp) is not part of this
  file. \<^verbatim>\<open>reduceAccumulate(trans, m, n, alpha, A, lda, x, incx, beta, y, incy)\<close> is a
  dense matrix-vector product, \<open>y := alpha * op(A) * x + beta * y\<close>, with \<open>A\<close> an
  \<open>m\<close> by \<open>n\<close> column-major matrix.\<close>

definition gemv_ref ::
  "('a::comm_semiring_1) gemv_call \<Rightarrow> (nat \<Rightarrow> 'a) \<Rightarrow> (nat \<Rightarrow> 'a) \<Rightarrow> (nat \<Rightarrow> 'a) \<Rightarrow> nat \<Rightarrow> 'a" where
  "gemv_ref c A x y = (\<lambda>idx.
     if 0 < gemv_incy c \<and> idx mod gemv_incy c = 0
        \<and> idx div gemv_incy c < (if gemv_trans c = CHR ''n'' then gemv_m c else gemv_n c)
     then gemv_alpha c *
            (if gemv_trans c = CHR ''n''
             then (\<Sum>j<gemv_n c. A (gemv_offA c + idx div gemv_incy c + gemv_lda c * j)
                                   * x (j * gemv_incx c))
             else (\<Sum>i<gemv_m c. A (gemv_offA c + i + gemv_lda c * (idx div gemv_incy c))
                                   * x (i * gemv_incx c)))
          + gemv_beta c * y idx
     else y idx)"

text \<open>A context whose dense primitives succeed and compute the reference
  result.\<close>

definition blas_conforms :: "('a::comm_semiring_1) Context \<Rightarrow> bool" where
  "blas_conforms ctx \<longleftrightarrow>
     (\<forall>c A B C. gemm ctx c A B C = (vlSuccess, gemm_ref c A B C)) \<and>
     (\<forall>c A x y. gemv ctx c A x y = (vlSuccess, gemv_ref c A x y))"



subsection \<open>Shape and group planning\<close>

text \<open>The local variables both functions derive from the shapes.\<close>

record plan =
  numGroups :: nat
  numFiltersPerGroup :: nat
  numOutputPixels :: nat
  filtersVolume :: nat
  tempVolume :: nat

definition filterGrpOffset :: "plan \<Rightarrow> nat \<Rightarrow> nat" where
  "filterGrpOffset P g = filtersVolume P * numFiltersPerGroup P * g"

definition tempGrpOffset :: "plan \<Rightarrow> nat \<Rightarrow> nat" where
  "tempGrpOffset P g = numOutputPixels P * filtersVolume P * g"

text \<open>\<^verbatim>\<open>outputGrpOffset\<close> in the forward pass, \<^verbatim>\<open>derOutputGrpOffset\<close> in the
  backward pass.\<close>

definition outputGrpOffset :: "plan \<Rightarrow> nat \<Rightarrow> nat" where
  "outputGrpOffset P g = numOutputPixels P * numFiltersPerGroup P * g"

text \<open>The window arguments of the unfold and fold calls: the volume's four dimensions
  and the first three dimensions of the filter-shaped tensor.\<close>

definition volArgs :: "'a Tensor \<Rightarrow> 'b Tensor \<Rightarrow> Geometry \<Rightarrow> vol_call" where
  "volArgs vol flt G =
     \<lparr>vol_height = getDimension vol 0, vol_width = getDimension vol 1,
      vol_depth = getDimension vol 2, vol_channels = getDimension vol 3,
      win_height = getDimension flt 0, win_width = getDimension flt 1,
      win_depth = getDimension flt 2, vol_geometry = G\<rparr>"

text \<open>How a loop body is left: \<open>Exit\<close> for \<^verbatim>\<open>goto done\<close> and \<^verbatim>\<open>return error\<close>,
  \<open>Continue\<close> for falling through.\<close>

datatype 's flow = Exit 's | Continue 's

subsection \<open>nnconv3d_forward_blas\<close>

definition forward_plan :: "'a Tensor \<Rightarrow> 'a Tensor \<Rightarrow> 'a Tensor \<Rightarrow> plan" where
  "forward_plan output data filters =
     (let nG = getDimension data 3 div getDimension filters 3;
          nFPG = getDimension filters 4 div nG;
          nOP = getDimension output 0 * getDimension output 1 * getDimension output 2;
          fV = getDimension filters 0 * getDimension filters 1 * getDimension filters 2
                 * getDimension filters 3
      in \<lparr>numGroups = nG, numFiltersPerGroup = nFPG, numOutputPixels = nOP,
          filtersVolume = fV, tempVolume = nOP * fV * nG\<rparr>)"

record 'a forward_state =
  fw_output :: "nat \<Rightarrow> 'a"
  fw_temp :: "nat \<Rightarrow> 'a"
  fw_error :: "Error option"
  fw_trace :: "'a event list"

text \<open>The grouped multiply of lines 124 to 136.\<close>

definition forward_gemm :: "Type \<Rightarrow> plan \<Rightarrow> 'a \<Rightarrow> 'a \<Rightarrow> nat \<Rightarrow> nat \<Rightarrow> 'a gemm_call" where
  "forward_gemm dataType P outputMult dataMult outputOffset g =
     \<lparr>gemm_transA = CHR ''n'', gemm_transB = CHR ''n'',
      gemm_m = numOutputPixels P, gemm_n = numFiltersPerGroup P, gemm_k = filtersVolume P,
      gemm_alpha = dataMult, gemm_alphaType = dataType,
      gemm_offA = tempGrpOffset P g, gemm_lda = numOutputPixels P,
      gemm_offB = filterGrpOffset P g, gemm_ldb = filtersVolume P,
      gemm_beta = outputMult, gemm_betaType = dataType,
      gemm_offC = outputOffset + outputGrpOffset P g, gemm_ldc = numOutputPixels P\<rparr>"

text \<open>The bias multiply of lines 141 to 150: the ones vector times the bias
  row.\<close>

definition forward_bias_gemm ::
  "Type \<Rightarrow> plan \<Rightarrow> ('a::comm_semiring_1) Tensor \<Rightarrow> nat \<Rightarrow> 'a gemm_call" where
  "forward_bias_gemm dataType P biases outputOffset =
     \<lparr>gemm_transA = CHR ''n'', gemm_transB = CHR ''n'',
      gemm_m = numOutputPixels P, gemm_n = getNumElements biases, gemm_k = 1,
      gemm_alpha = 1, gemm_alphaType = dataType,
      gemm_offA = 0, gemm_lda = numOutputPixels P,
      gemm_offB = 0, gemm_ldb = 1,
      gemm_beta = 1, gemm_betaType = dataType,
      gemm_offC = outputOffset, gemm_ldc = numOutputPixels P\<rparr>"

function forward_groups ::
  "'a Context \<Rightarrow> Type \<Rightarrow> plan \<Rightarrow> 'a \<Rightarrow> 'a \<Rightarrow> 'a Tensor \<Rightarrow> nat \<Rightarrow> nat \<Rightarrow> nat
     \<Rightarrow> 'a forward_state \<Rightarrow> 'a forward_state flow" where
  "forward_groups ctx dataType P outputMult dataMult filters img outputOffset g st =
     (if g < numGroups P then
        (let c = forward_gemm dataType P outputMult dataMult outputOffset g;
             r = gemm ctx c (fw_temp st) (getMemory filters) (fw_output st);
             st' = st\<lparr>fw_output := snd r, fw_error := Some (fst r),
                      fw_trace := fw_trace st @ [(img, Gemm c, fst r)]\<rparr>
         in if fst r \<noteq> vlSuccess then Exit st'
            else forward_groups ctx dataType P outputMult dataMult filters img
                   outputOffset (Suc g) st')
      else Continue st)"
  by pat_completeness auto
termination
  by (relation "measure (\<lambda>(ctx, dataType, P, outputMult, dataMult, filters, img,
                            outputOffset, g, st). numGroups P - g)") auto

text \<open>The body of the loop over the images, lines 111 to 152.\<close>

definition forward_image ::
  "('a::comm_semiring_1) Context \<Rightarrow> Type \<Rightarrow> plan \<Rightarrow> (nat \<Rightarrow> 'a) \<Rightarrow> 'a Tensor \<Rightarrow> 'a
     \<Rightarrow> 'a Tensor \<Rightarrow> 'a \<Rightarrow> 'a Tensor \<Rightarrow> 'a Tensor \<Rightarrow> Geometry \<Rightarrow> nat
     \<Rightarrow> 'a forward_state \<Rightarrow> 'a forward_state flow" where
  "forward_image ctx dataType P allOnesMemory output outputMult data dataMult filters
       biases G img st =
     (let dataOffset = imageOffset data img;
          outputOffset = imageOffset output img;
          vc = volArgs data filters G;
          r = vol2row ctx vc (offset_ptr (getMemory data) dataOffset) (fw_temp st);
          st1 = st\<lparr>fw_temp := snd r, fw_error := Some (fst r),
                   fw_trace := fw_trace st @ [(img, Vol2row vc, fst r)]\<rparr>
      in if fst r \<noteq> vlSuccess then Exit st1
         else (case forward_groups ctx dataType P outputMult dataMult filters img
                      outputOffset 0 st1 of
                 Exit st2 \<Rightarrow> Exit st2
               | Continue st2 \<Rightarrow>
                   if nonNull biases then
                     (let c = forward_bias_gemm dataType P biases outputOffset;
                          rb = gemm ctx c allOnesMemory (getMemory biases) (fw_output st2);
                          st3 = st2\<lparr>fw_output := snd rb, fw_error := Some (fst rb),
                                    fw_trace := fw_trace st2 @ [(img, Gemm c, fst rb)]\<rparr>
                      in if fst rb \<noteq> vlSuccess then Exit st3 else Continue st3)
                   else Continue st2))"

function forward_images ::
  "('a::comm_semiring_1) Context \<Rightarrow> Type \<Rightarrow> plan \<Rightarrow> (nat \<Rightarrow> 'a) \<Rightarrow> 'a Tensor \<Rightarrow> 'a
     \<Rightarrow> 'a Tensor \<Rightarrow> 'a \<Rightarrow> 'a Tensor \<Rightarrow> 'a Tensor \<Rightarrow> Geometry \<Rightarrow> nat
     \<Rightarrow> 'a forward_state \<Rightarrow> 'a forward_state flow" where
  "forward_images ctx dataType P allOnesMemory output outputMult data dataMult filters
       biases G img st =
     (if img < getDimension data 4 then
        (case forward_image ctx dataType P allOnesMemory output outputMult data dataMult
                filters biases G img st of
           Exit st' \<Rightarrow> Exit st'
         | Continue st' \<Rightarrow>
             forward_images ctx dataType P allOnesMemory output outputMult data dataMult
               filters biases G (Suc img) st')
      else Continue st)"
  by pat_completeness auto
termination
  by (relation "measure (\<lambda>(ctx, dataType, P, allOnesMemory, output, outputMult, data,
                            dataMult, filters, biases, G, img, st).
                            getDimension data 4 - img)") auto

text \<open>The state left by either way out of the loop.\<close>

fun flow_state :: "'s flow \<Rightarrow> 's" where
  "flow_state (Exit s) = s"
| "flow_state (Continue s) = s"

text \<open>The outcome of a call is the status it returns, or what made it undefined,
  together with the state reached. \<^verbatim>\<open>done: return context.passError(error, ...)\<close>:
  \<^verbatim>\<open>error\<close> is declared without an initial value, so reading it before any
  assignment is undefined.\<close>

definition forward_done ::
  "'a Context \<Rightarrow> 'a forward_state \<Rightarrow> (Undefined + Error) \<times> 'a forward_state" where
  "forward_done ctx st =
     (case fw_error st of
        None \<Rightarrow> (Inl UninitializedError, st)
      | Some e \<Rightarrow> (Inr (passError ctx e), st))"

definition forward ::
  "Type \<Rightarrow> ('a::comm_semiring_1) Context \<Rightarrow> 'a Tensor \<Rightarrow> 'a \<Rightarrow> 'a Tensor \<Rightarrow> 'a
     \<Rightarrow> 'a Tensor \<Rightarrow> 'a Tensor \<Rightarrow> Geometry \<Rightarrow> (Undefined + Error) \<times> 'a forward_state" where
  "forward dataType ctx output outputMult data dataMult filters biases G =
     (let st0 = \<lparr>fw_output = getMemory output, fw_temp = (\<lambda>i. 0), fw_error = None,
                 fw_trace = []\<rparr>
      in if \<not> (nonNull output \<and> nonNull data \<and> nonNull filters)
           then (Inl AssertionFailure, st0)
         else if getDimension filters 3 = 0 then (Inl DivisionByZero, st0)
         else if getDimension data 3 div getDimension filters 3 = 0
           then (Inl DivisionByZero, st0)
         else
        (let P = forward_plan output data filters
         in case (getWorkspace ctx (tempVolume P * sizeofType dataType),
                  getAllOnes ctx dataType (numOutputPixels P)) of
              (Some tempMemory, Some allOnesMemory) \<Rightarrow>
                forward_done ctx
                  (flow_state
                     (forward_images ctx dataType P allOnesMemory output outputMult data
                        dataMult filters biases G 0 (st0\<lparr>fw_temp := tempMemory\<rparr>)))
            | _ \<Rightarrow> forward_done ctx (st0\<lparr>fw_error := Some (getLastError ctx)\<rparr>)))"

subsection \<open>nnconv3d_backward_blas\<close>

text \<open>Lines 174 to 211. The locals start at zero; the group count and the filter volume
  come from the input-gradient request when there is one, else from the filter-gradient
  request.\<close>

definition backward_numGroups ::
  "'a Tensor \<Rightarrow> 'a Tensor \<Rightarrow> 'a Tensor \<Rightarrow> 'a Tensor \<Rightarrow> nat" where
  "backward_numGroups derData derFilters data filters =
     (if nonNull derData then getDimension derData 3 div getDimension filters 3
      else if nonNull derFilters then getDimension data 3 div getDimension derFilters 3
      else 0)"

definition backward_filtersVolume :: "'a Tensor \<Rightarrow> 'a Tensor \<Rightarrow> 'a Tensor \<Rightarrow> nat" where
  "backward_filtersVolume derData derFilters filters =
     (if nonNull derData then
        getDimension filters 0 * getDimension filters 1 * getDimension filters 2
          * getDimension filters 3
      else if nonNull derFilters then
        getDimension derFilters 0 * getDimension derFilters 1 * getDimension derFilters 2
          * getDimension derFilters 3
      else 0)"

definition backward_plan ::
  "'a Tensor \<Rightarrow> 'a Tensor \<Rightarrow> 'a Tensor \<Rightarrow> 'a Tensor \<Rightarrow> 'a Tensor \<Rightarrow> plan" where
  "backward_plan derData derFilters data filters derOutput =
     (let nOP = getDimension derOutput 0 * getDimension derOutput 1
                  * getDimension derOutput 2;
          nG = backward_numGroups derData derFilters data filters;
          fV = backward_filtersVolume derData derFilters filters;
          nFPG = getDimension derOutput 3 div nG
      in \<lparr>numGroups = nG, numFiltersPerGroup = nFPG, numOutputPixels = nOP,
          filtersVolume = fV, tempVolume = nOP * fV * nG\<rparr>)"

record 'a backward_state =
  bw_derData :: "nat \<Rightarrow> 'a"
  bw_derFilters :: "nat \<Rightarrow> 'a"
  bw_derBiases :: "nat \<Rightarrow> 'a"
  bw_temp :: "nat \<Rightarrow> 'a"
  bw_error :: "Error option"
  bw_trace :: "'a event list"

text \<open>The reduction of lines 227 to 236.\<close>

definition backward_bias_gemv ::
  "Type \<Rightarrow> plan \<Rightarrow> ('a::comm_semiring_1) Tensor \<Rightarrow> nat \<Rightarrow> nat \<Rightarrow> 'a gemv_call" where
  "backward_bias_gemv dataType P derOutput derOutputOffset img =
     \<lparr>gemv_trans = CHR ''t'',
      gemv_m = numOutputPixels P, gemv_n = getDepth derOutput,
      gemv_alpha = 1, gemv_alphaType = dataType,
      gemv_offA = derOutputOffset, gemv_lda = numOutputPixels P,
      gemv_incx = 1,
      gemv_beta = of_bool (0 < img), gemv_betaType = dataType,
      gemv_incy = 1\<rparr>"

text \<open>The multiply of lines 245 to 257; its \<^verbatim>\<open>alpha\<close> and \<^verbatim>\<open>beta\<close> are declared
  \<^verbatim>\<open>float\<close>.\<close>

definition backward_data_gemm ::
  "plan \<Rightarrow> nat \<Rightarrow> nat \<Rightarrow> ('a::comm_semiring_1) gemm_call" where
  "backward_data_gemm P derOutputOffset g =
     \<lparr>gemm_transA = CHR ''n'', gemm_transB = CHR ''t'',
      gemm_m = numOutputPixels P, gemm_n = filtersVolume P, gemm_k = numFiltersPerGroup P,
      gemm_alpha = 1, gemm_alphaType = vlTypeFloat,
      gemm_offA = derOutputOffset + outputGrpOffset P g, gemm_lda = numOutputPixels P,
      gemm_offB = filterGrpOffset P g, gemm_ldb = filtersVolume P,
      gemm_beta = 0, gemm_betaType = vlTypeFloat,
      gemm_offC = tempGrpOffset P g, gemm_ldc = numOutputPixels P\<rparr>"

text \<open>The multiply of lines 283 to 296.\<close>

definition backward_filters_gemm ::
  "Type \<Rightarrow> plan \<Rightarrow> nat \<Rightarrow> nat \<Rightarrow> nat \<Rightarrow> ('a::comm_semiring_1) gemm_call" where
  "backward_filters_gemm dataType P derOutputOffset img g =
     \<lparr>gemm_transA = CHR ''t'', gemm_transB = CHR ''n'',
      gemm_m = filtersVolume P, gemm_n = numFiltersPerGroup P, gemm_k = numOutputPixels P,
      gemm_alpha = 1, gemm_alphaType = dataType,
      gemm_offA = tempGrpOffset P g, gemm_lda = numOutputPixels P,
      gemm_offB = derOutputOffset + outputGrpOffset P g, gemm_ldb = numOutputPixels P,
      gemm_beta = of_bool (0 < img), gemm_betaType = dataType,
      gemm_offC = filterGrpOffset P g, gemm_ldc = filtersVolume P\<rparr>"

text \<open>Lines 225 to 238.\<close>

definition backward_bias_step ::
  "('a::comm_semiring_1) Context \<Rightarrow> Type \<Rightarrow> plan \<Rightarrow> (nat \<Rightarrow> 'a) \<Rightarrow> 'a Tensor \<Rightarrow> 'a Tensor
     \<Rightarrow> nat \<Rightarrow> 'a backward_state \<Rightarrow> 'a backward_state flow" where
  "backward_bias_step ctx dataType P allOnesMemory derBiases derOutput img st =
     (if nonNull derBiases then
        (let c = backward_bias_gemv dataType P derOutput (imageOffset derOutput img) img;
             r = gemv ctx c (getMemory derOutput) allOnesMemory (bw_derBiases st);
             st' = st\<lparr>bw_derBiases := snd r, bw_error := Some (fst r),
                      bw_trace := bw_trace st @ [(img, Gemv c, fst r)]\<rparr>
         in if fst r \<noteq> vlSuccess then Exit st' else Continue st')
      else Continue st)"

function backward_data_groups ::
  "('a::comm_semiring_1) Context \<Rightarrow> plan \<Rightarrow> 'a Tensor \<Rightarrow> 'a Tensor \<Rightarrow> nat \<Rightarrow> nat \<Rightarrow> nat
     \<Rightarrow> 'a backward_state \<Rightarrow> 'a backward_state flow" where
  "backward_data_groups ctx P filters derOutput img derOutputOffset g st =
     (if g < numGroups P then
        (let c = backward_data_gemm P derOutputOffset g;
             r = gemm ctx c (getMemory derOutput) (getMemory filters) (bw_temp st);
             st' = st\<lparr>bw_temp := snd r, bw_error := Some (fst r),
                      bw_trace := bw_trace st @ [(img, Gemm c, fst r)]\<rparr>
         in if fst r \<noteq> vlSuccess then Exit st'
            else backward_data_groups ctx P filters derOutput img derOutputOffset (Suc g) st')
      else Continue st)"
  by pat_completeness auto
termination
  by (relation "measure (\<lambda>(ctx, P, filters, derOutput, img, derOutputOffset, g, st).
                            numGroups P - g)") auto

text \<open>Lines 241 to 268.\<close>

definition backward_data_step ::
  "('a::comm_semiring_1) Context \<Rightarrow> plan \<Rightarrow> 'a Tensor \<Rightarrow> 'a Tensor \<Rightarrow> 'a Tensor \<Rightarrow> Geometry
     \<Rightarrow> nat \<Rightarrow> 'a backward_state \<Rightarrow> 'a backward_state flow" where
  "backward_data_step ctx P derData filters derOutput G img st =
     (if nonNull derData then
        (let derDataOffset = imageOffset derData img in
         case backward_data_groups ctx P filters derOutput img
                (imageOffset derOutput img) 0 st of
           Exit st1 \<Rightarrow> Exit st1
         | Continue st1 \<Rightarrow>
             (let vc = volArgs derData filters G;
                  r = row2vol ctx vc (bw_derData st1) derDataOffset (bw_temp st1);
                  st2 = st1\<lparr>bw_derData := snd r, bw_error := Some (fst r),
                            bw_trace := bw_trace st1 @ [(img, Row2vol vc, fst r)]\<rparr>
              in if fst r \<noteq> vlSuccess then Exit st2 else Continue st2))
      else Continue st)"

function backward_filters_groups ::
  "('a::comm_semiring_1) Context \<Rightarrow> Type \<Rightarrow> plan \<Rightarrow> 'a Tensor \<Rightarrow> nat \<Rightarrow> nat \<Rightarrow> nat
     \<Rightarrow> 'a backward_state \<Rightarrow> 'a backward_state flow" where
  "backward_filters_groups ctx dataType P derOutput img derOutputOffset g st =
     (if g < numGroups P then
        (let c = backward_filters_gemm dataType P derOutputOffset img g;
             r = gemm ctx c (bw_temp st) (getMemory derOutput) (bw_derFilters st);
             st' = st\<lparr>bw_derFilters := snd r, bw_error := Some (fst r),
                      bw_trace := bw_trace st @ [(img, Gemm c, fst r)]\<rparr>
         in if fst r \<noteq> vlSuccess then Exit st'
            else backward_filters_groups ctx dataType P derOutput img derOutputOffset
                   (Suc g) st')
      else Continue st)"
  by pat_completeness auto
termination
  by (relation "measure (\<lambda>(ctx, dataType, P, derOutput, img, derOutputOffset, g, st).
                            numGroups P - g)") auto

text \<open>Lines 271 to 299.\<close>

definition backward_filters_step ::
  "('a::comm_semiring_1) Context \<Rightarrow> Type \<Rightarrow> plan \<Rightarrow> 'a Tensor \<Rightarrow> 'a Tensor \<Rightarrow> 'a Tensor
     \<Rightarrow> Geometry \<Rightarrow> nat \<Rightarrow> 'a backward_state \<Rightarrow> 'a backward_state flow" where
  "backward_filters_step ctx dataType P derFilters data derOutput G img st =
     (if nonNull derFilters then
        (let dataOffset = imageOffset data img;
             vc = volArgs data derFilters G;
             r = vol2row ctx vc (offset_ptr (getMemory data) dataOffset) (bw_temp st);
             st1 = st\<lparr>bw_temp := snd r, bw_error := Some (fst r),
                      bw_trace := bw_trace st @ [(img, Vol2row vc, fst r)]\<rparr>
         in if fst r \<noteq> vlSuccess then Exit st1
            else backward_filters_groups ctx dataType P derOutput img
                   (imageOffset derOutput img) 0 st1)
      else Continue st)"

text \<open>The body of the loop over the images, lines 222 to 299.\<close>

definition backward_image ::
  "('a::comm_semiring_1) Context \<Rightarrow> Type \<Rightarrow> plan \<Rightarrow> (nat \<Rightarrow> 'a) \<Rightarrow> 'a Tensor \<Rightarrow> 'a Tensor
     \<Rightarrow> 'a Tensor \<Rightarrow> 'a Tensor \<Rightarrow> 'a Tensor \<Rightarrow> 'a Tensor \<Rightarrow> Geometry \<Rightarrow> nat
     \<Rightarrow> 'a backward_state \<Rightarrow> 'a backward_state flow" where
  "backward_image ctx dataType P allOnesMemory derData derFilters derBiases data filters
       derOutput G img st =
     (case backward_bias_step ctx dataType P allOnesMemory derBiases derOutput img st of
        Exit st1 \<Rightarrow> Exit st1
      | Continue st1 \<Rightarrow>
          (case backward_data_step ctx P derData filters derOutput G img st1 of
             Exit st2 \<Rightarrow> Exit st2
           | Continue st2 \<Rightarrow>
               backward_filters_step ctx dataType P derFilters data derOutput G img st2))"

function backward_images ::
  "('a::comm_semiring_1) Context \<Rightarrow> Type \<Rightarrow> plan \<Rightarrow> (nat \<Rightarrow> 'a) \<Rightarrow> 'a Tensor \<Rightarrow> 'a Tensor
     \<Rightarrow> 'a Tensor \<Rightarrow> 'a Tensor \<Rightarrow> 'a Tensor \<Rightarrow> 'a Tensor \<Rightarrow> Geometry \<Rightarrow> nat
     \<Rightarrow> 'a backward_state \<Rightarrow> 'a backward_state flow" where
  "backward_images ctx dataType P allOnesMemory derData derFilters derBiases data filters
       derOutput G img st =
     (if img < getDimension derOutput 4 then
        (case backward_image ctx dataType P allOnesMemory derData derFilters derBiases
                data filters derOutput G img st of
           Exit st' \<Rightarrow> Exit st'
         | Continue st' \<Rightarrow>
             backward_images ctx dataType P allOnesMemory derData derFilters derBiases
               data filters derOutput G (Suc img) st')
      else Continue st)"
  by pat_completeness auto
termination
  by (relation "measure (\<lambda>(ctx, dataType, P, allOnesMemory, derData, derFilters,
                            derBiases, data, filters, derOutput, G, img, st).
                            getDimension derOutput 4 - img)") auto

text \<open>\<^verbatim>\<open>done: return context.passError(error, ...)\<close>, as in
  the forward pass.\<close>

definition backward_done ::
  "'a Context \<Rightarrow> 'a backward_state \<Rightarrow> (Undefined + Error) \<times> 'a backward_state" where
  "backward_done ctx st =
     (case bw_error st of
        None \<Rightarrow> (Inl UninitializedError, st)
      | Some e \<Rightarrow> (Inr (passError ctx e), st))"

text \<open>\<^verbatim>\<open>return error\<close> inside the loop, after an assignment
  to \<^verbatim>\<open>error\<close>.\<close>

definition backward_return ::
  "'a backward_state \<Rightarrow> (Undefined + Error) \<times> 'a backward_state" where
  "backward_return st =
     (case bw_error st of
        None \<Rightarrow> (Inl UninitializedError, st)
      | Some e \<Rightarrow> (Inr e, st))"

text \<open>The ones vector is requested only for the bias gradient, the scratch space only
  when \<^verbatim>\<open>tempVolume\<close> is not zero; otherwise the pointer stays \<^verbatim>\<open>NULL\<close>, which
  is a buffer that none of the calls addresses.\<close>

definition backward_allOnes ::
  "('a::comm_semiring_1) Context \<Rightarrow> Type \<Rightarrow> 'a Tensor \<Rightarrow> nat \<Rightarrow> (nat \<Rightarrow> 'a) option" where
  "backward_allOnes ctx dataType derBiases nOP =
     (if nonNull derBiases then getAllOnes ctx dataType nOP else Some (\<lambda>i. 0))"

definition backward_workspace ::
  "('a::comm_semiring_1) Context \<Rightarrow> Type \<Rightarrow> plan \<Rightarrow> (nat \<Rightarrow> 'a) option" where
  "backward_workspace ctx dataType P =
     (if tempVolume P \<noteq> 0 then getWorkspace ctx (tempVolume P * sizeofType dataType)
      else Some (\<lambda>i. 0))"

definition backward ::
  "Type \<Rightarrow> ('a::comm_semiring_1) Context \<Rightarrow> 'a Tensor \<Rightarrow> 'a Tensor \<Rightarrow> 'a Tensor
     \<Rightarrow> 'a Tensor \<Rightarrow> 'a Tensor \<Rightarrow> 'a Tensor \<Rightarrow> Geometry
     \<Rightarrow> (Undefined + Error) \<times> 'a backward_state" where
  "backward dataType ctx derData derFilters derBiases data filters derOutput G =
     (let st0 = \<lparr>bw_derData = getMemory derData, bw_derFilters = getMemory derFilters,
                 bw_derBiases = getMemory derBiases, bw_temp = (\<lambda>i. 0), bw_error = None,
                 bw_trace = []\<rparr>;
          nOP = getDimension derOutput 0 * getDimension derOutput 1
                  * getDimension derOutput 2
      in if \<not> nonNull derOutput then (Inl AssertionFailure, st0)
         else case backward_allOnes ctx dataType derBiases nOP of
           None \<Rightarrow> backward_done ctx (st0\<lparr>bw_error := Some (getLastError ctx)\<rparr>)
         | Some allOnesMemory \<Rightarrow>
             if nonNull derData \<and> \<not> nonNull filters then (Inl AssertionFailure, st0)
             else if nonNull derData \<and> getDimension filters 3 = 0
               then (Inl DivisionByZero, st0)
             else if \<not> nonNull derData \<and> nonNull derFilters \<and> \<not> nonNull data
               then (Inl AssertionFailure, st0)
             else if \<not> nonNull derData \<and> nonNull derFilters
                     \<and> getDimension derFilters 3 = 0
               then (Inl DivisionByZero, st0)
             else if backward_numGroups derData derFilters data filters = 0
               then (Inl DivisionByZero, st0)
             else
               (let P = backward_plan derData derFilters data filters derOutput
                in case backward_workspace ctx dataType P of
                     None \<Rightarrow> backward_done ctx (st0\<lparr>bw_error := Some (getLastError ctx)\<rparr>)
                   | Some tempMemory \<Rightarrow>
                       (case backward_images ctx dataType P allOnesMemory derData
                               derFilters derBiases data filters derOutput G 0
                               (st0\<lparr>bw_temp := tempMemory\<rparr>) of
                          Exit st \<Rightarrow> backward_return st
                        | Continue st \<Rightarrow> backward_done ctx st)))"

subsection \<open>The convolution in terms of the patch matrix\<close>


subsection \<open>The log of primitive calls\<close>

text \<open>The declared types of the scale factors of a call, when it has any.\<close>

fun scale_types :: "'a primitive \<Rightarrow> (Type \<times> Type) option" where
  "scale_types (Gemm c) = Some (gemm_alphaType c, gemm_betaType c)"
| "scale_types (Gemv c) = Some (gemv_alphaType c, gemv_betaType c)"
| "scale_types (Vol2row vc) = None"
| "scale_types (Row2vol vc) = None"

text \<open>A call of the log succeeded.\<close>

definition succeeded :: "'a event \<Rightarrow> bool" where
  "succeeded ev \<longleftrightarrow> snd (snd ev) = vlSuccess"

text \<open>At the head of a loop every call so far has succeeded, and \<^verbatim>\<open>error\<close> holds the
  status of the last one.\<close>

definition all_succeeded :: "'a event list \<Rightarrow> Error option \<Rightarrow> bool" where
  "all_succeeded tr err \<longleftrightarrow> list_all succeeded tr \<and> (tr \<noteq> [] \<longrightarrow> err = Some vlSuccess)"

text \<open>After \<^verbatim>\<open>goto done\<close> or \<^verbatim>\<open>return error\<close> the last call of the log is the
  only one that failed, and \<^verbatim>\<open>error\<close> holds its status.\<close>

definition stopped_at_failure :: "'a event list \<Rightarrow> Error option \<Rightarrow> bool" where
  "stopped_at_failure tr err \<longleftrightarrow>
     tr \<noteq> [] \<and> list_all succeeded (butlast tr) \<and> \<not> succeeded (last tr)
     \<and> err = Some (snd (snd (last tr)))"

fun forward_flow_ok :: "'a forward_state flow \<Rightarrow> bool" where
  "forward_flow_ok (Continue s) = all_succeeded (fw_trace s) (fw_error s)"
| "forward_flow_ok (Exit s) = stopped_at_failure (fw_trace s) (fw_error s)"

fun backward_flow_ok :: "'a backward_state flow \<Rightarrow> bool" where
  "backward_flow_ok (Continue s) = all_succeeded (bw_trace s) (bw_error s)"
| "backward_flow_ok (Exit s) = stopped_at_failure (bw_trace s) (bw_error s)"

text \<open>The call returned, with a status other than success.\<close>

fun returns_failure :: "Undefined + Error \<Rightarrow> bool" where
  "returns_failure (Inl u) = False"
| "returns_failure (Inr e) = (e \<noteq> vlSuccess)"

text \<open>A context all of whose primitives report success.\<close>

definition primitives_succeed :: "'a Context \<Rightarrow> bool" where
  "primitives_succeed ctx \<longleftrightarrow>
     (\<forall>vc src dst. fst (vol2row ctx vc src dst) = vlSuccess) \<and>
     (\<forall>vc dst off src. fst (row2vol ctx vc dst off src) = vlSuccess) \<and>
     (\<forall>c A B C. fst (gemm ctx c A B C) = vlSuccess) \<and>
     (\<forall>c A x y. fst (gemv ctx c A x y) = vlSuccess)"

subsection \<open>Concrete tensors and a reference context\<close>

text \<open>A five-dimensional tensor over a given memory; the last but one argument is what
  \<^verbatim>\<open>getDepth\<close> answers.\<close>

definition mkTensor :: "nat \<Rightarrow> nat \<Rightarrow> nat \<Rightarrow> nat \<Rightarrow> nat \<Rightarrow> nat \<Rightarrow> (nat \<Rightarrow> 'a) \<Rightarrow> 'a Tensor" where
  "mkTensor h w t c n dep mem =
     \<lparr>nonNull = True,
      getDimension = (\<lambda>k. if k = 0 then h else if k = 1 then w else if k = 2 then t
                          else if k = 3 then c else if k = 4 then n else 1),
      getDepth = dep, getNumElements = h * w * t * c * n, getMemory = mem\<rparr>"

definition nullTensor :: "('a::zero) Tensor" where
  "nullTensor = \<lparr>nonNull = False, getDimension = (\<lambda>k. 0), getDepth = 0,
                 getNumElements = 0, getMemory = (\<lambda>i. 0)\<rparr>"

text \<open>A context over the integers whose dense primitives are the reference ones, whose
  unfold copies the image (the patch matrix of a 1 by 1 by 1 window with unit stride and
  no padding) and whose fold copies the scratch buffer back.\<close>

definition refContext :: "int Context" where
  "refContext =
     \<lparr>getWorkspace = (\<lambda>bytes. Some (\<lambda>i. 0)),
      getAllOnes = (\<lambda>ty n. Some (\<lambda>i. 1)),
      getLastError = vlFailure 0,
      passError = (\<lambda>e. e),
      vol2row = (\<lambda>vc src dst. (vlSuccess, src)),
      row2vol = (\<lambda>vc dst off src.
                   (vlSuccess,
                    (\<lambda>j. if off \<le> j
                              \<and> j < off + vol_height vc * vol_width vc * vol_depth vc
                                          * vol_channels vc
                          then src (j - off) else dst j))),
      gemm = (\<lambda>c A B C. (vlSuccess, gemm_ref c A B C)),
      gemv = (\<lambda>c A x y. (vlSuccess, gemv_ref c A x y))\<rparr>"

definition unitGeometry :: Geometry where
  "unitGeometry = \<lparr>strideY = 1, strideX = 1, strideT = 1, padTop = 0, padBottom = 0,
                    padLeft = 0, padRight = 0, padT = 0\<rparr>"

text \<open>The reference context with a multiply that fails unless its destination starts
  at element 0.\<close>

definition failingContext :: "int Context" where
  "failingContext =
     refContext\<lparr>gemm := (\<lambda>c A B C. if gemm_offC c = 0 then (vlSuccess, gemm_ref c A B C)
                                    else (vlFailure 7, C))\<rparr>"

subsection \<open>Footprints of a multiply\<close>

text \<open>The elements of the three operands a multiply addresses: \<open>op(A)\<close>
  is \<open>m\<close> by \<open>k\<close>, \<open>op(B)\<close> is \<open>k\<close> by
  \<open>n\<close> and \<open>C\<close> is \<open>m\<close> by \<open>n\<close>,
  column-major.\<close>

definition gemm_readsA :: "'a gemm_call \<Rightarrow> nat set" where
  "gemm_readsA c =
     (\<lambda>(i, l). if gemm_transA c = CHR ''n'' then gemm_offA c + i + gemm_lda c * l
                else gemm_offA c + l + gemm_lda c * i)
       ` ({..<gemm_m c} \<times> {..<gemm_k c})"

definition gemm_readsB :: "'a gemm_call \<Rightarrow> nat set" where
  "gemm_readsB c =
     (\<lambda>(l, j). if gemm_transB c = CHR ''n'' then gemm_offB c + l + gemm_ldb c * j
                else gemm_offB c + j + gemm_ldb c * l)
       ` ({..<gemm_k c} \<times> {..<gemm_n c})"

definition gemm_writesC :: "'a gemm_call \<Rightarrow> nat set" where
  "gemm_writesC c =
     (\<lambda>(i, j). gemm_offC c + i + gemm_ldc c * j) ` ({..<gemm_m c} \<times> {..<gemm_n c})"

text \<open>The sub-block of group \<open>g\<close> in a buffer partitioned contiguously
  along the group axis, starting at \<open>base\<close>.\<close>

definition group_block :: "nat \<Rightarrow> nat \<Rightarrow> nat \<Rightarrow> nat set" where
  "group_block base stride g = {base + stride * g ..< base + stride * Suc g}"

definition gemm_within :: "'a gemm_call \<Rightarrow> nat set \<Rightarrow> nat set \<Rightarrow> nat set \<Rightarrow> bool" where
  "gemm_within c SA SB SC \<longleftrightarrow>
     gemm_readsA c \<subseteq> SA \<and> gemm_readsB c \<subseteq> SB \<and> gemm_writesC c \<subseteq> SC"

text \<open>A plan with two groups, for the concrete instances.\<close>

definition examplePlan :: plan where
  "examplePlan = \<lparr>numGroups = 2, numFiltersPerGroup = 3, numOutputPixels = 4,
                   filtersVolume = 5, tempVolume = 40\<rparr>"

subsection \<open>The gradients in terms of the patch matrix\<close>





section \<open>Properties\<close>

declare forward_groups.simps [simp del] forward_images.simps [simp del]
  backward_data_groups.simps [simp del] backward_filters_groups.simps [simp del]
  backward_images.simps [simp del]

subsection \<open>Index arithmetic\<close>

lemma block_index_less: "p < a \<Longrightarrow> fl < b \<Longrightarrow> p + a * fl < a * (b::nat)"
proof -
  assume p: "p < a" and f: "fl < b"
  from f have "Suc fl \<le> b" by simp
  then have "a * Suc fl \<le> a * b" by (rule mult_le_mono2)
  with p show ?thesis by simp
qed































lemma backward_bias_only:
  assumes "nonNull derOutput" "\<not> nonNull derData" "\<not> nonNull derFilters"
    and "backward_allOnes ctx dataType derBiases
           (getDimension derOutput 0 * getDimension derOutput 1 * getDimension derOutput 2)
         = Some allOnesMemory"
  shows "fst (backward dataType ctx derData derFilters derBiases data filters derOutput G)
           = Inl DivisionByZero"
  using assms by (simp add: backward_def Let_def backward_numGroups_def)

text \<open>C10: a backward call that asks for the bias gradient alone, with the ones vector
  acquired, leaves \<^verbatim>\<open>numGroups\<close> at zero and then divides the channel count of the
  output gradient by it (line 208): the outcome is a division by zero, not a result.\<close>

theorem backward_bias_only_divides_by_zero:
  "fst (backward vlTypeFloat refContext nullTensor nullTensor (mkTensor 2 1 1 1 1 1 (\<lambda>i. 0))
     (mkTensor 1 1 1 1 1 1 (\<lambda>i. 5)) (mkTensor 1 1 1 1 2 1 (\<lambda>i. 7))
     (mkTensor 1 1 1 2 1 2 (\<lambda>i. 3)) unitGeometry)
   = Inl DivisionByZero"
  by (rule backward_bias_only [where allOnesMemory = "\<lambda>i. 1"])
     (simp_all add: mkTensor_def nullTensor_def backward_allOnes_def refContext_def)

lemma scale_types_of_the_other_calls:
  "gemm_alphaType (forward_gemm dataType P oM dM oOff g) = dataType"
  "gemm_betaType (forward_gemm dataType P oM dM oOff g) = dataType"
  "gemm_alphaType (forward_bias_gemm dataType P biases oOff) = dataType"
  "gemm_betaType (forward_bias_gemm dataType P biases oOff) = dataType"
  "gemv_alphaType (backward_bias_gemv dataType P derOutput dOff img) = dataType"
  "gemv_betaType (backward_bias_gemv dataType P derOutput dOff img) = dataType"
  "gemm_alphaType (backward_filters_gemm dataType P dOff img g) = dataType"
  "gemm_betaType (backward_filters_gemm dataType P dOff img g) = dataType"
  by (simp_all add: forward_gemm_def forward_bias_gemm_def backward_bias_gemv_def
        backward_filters_gemm_def)

text \<open>C6: in a double precision backward call that asks for the input gradient, the
  log holds the per-group multiply with scale factors declared \<^verbatim>\<open>float\<close>, followed by
  the fold; the scale factors do not have the element type.\<close>

theorem backward_data_scale_factors_are_float:
  "map (\<lambda>ev. scale_types (fst (snd ev)))
     (bw_trace (snd
        (backward vlTypeDouble refContext (mkTensor 1 1 1 1 1 1 (\<lambda>i. 0)) nullTensor nullTensor
           (mkTensor 1 1 1 1 1 1 (\<lambda>i. 5)) (mkTensor 1 1 1 1 1 1 (\<lambda>i. 7))
           (mkTensor 1 1 1 1 1 1 (\<lambda>i. 3)) unitGeometry)))
   = [Some (vlTypeFloat, vlTypeFloat), None]"
  by code_simp

text \<open>C5, as stated, fails: with 3 data channels and 2 input channels per filter the
  division is not exact, and the forward call returns success.\<close>

theorem forward_accepts_inexact_division:
  "getDimension (mkTensor 1 1 1 3 1 3 (\<lambda>i. 5 :: int)) 3
     mod getDimension (mkTensor 1 1 1 2 1 2 (\<lambda>i. 7 :: int)) 3 \<noteq> 0 \<and>
   fst (forward vlTypeFloat refContext (mkTensor 1 1 1 1 1 1 (\<lambda>i. 0)) 0
          (mkTensor 1 1 1 3 1 3 (\<lambda>i. 5)) 1 (mkTensor 1 1 1 2 1 2 (\<lambda>i. 7)) nullTensor
          unitGeometry)
   = Inr vlSuccess"
  by code_simp

text \<open>C7, as stated, fails: with both gradients requested, a filter of volume 1 and a
  filter gradient of volume 2, the backward call returns success.\<close>

theorem backward_accepts_disagreeing_filter_volumes:
  "fst
     (backward vlTypeFloat refContext (mkTensor 1 1 1 1 1 1 (\<lambda>i. 0))
        (mkTensor 2 1 1 1 1 1 (\<lambda>i. 0)) nullTensor
        (mkTensor 1 1 1 1 1 1 (\<lambda>i. 5)) (mkTensor 1 1 1 1 1 1 (\<lambda>i. 7))
        (mkTensor 1 1 1 1 1 1 (\<lambda>i. 3)) unitGeometry)
   = Inr vlSuccess"
  by code_simp

text \<open>C7, amended: when the input gradient is requested, the shared quantities (group
  count, filters per group, output pixels, filter volume, scratch size) are derived from
  the input gradient, the filters and the output gradient alone; the filter gradient
  tensor and the data tensor play no part in them and are not compared with them.\<close>

theorem backward_plan_from_input_gradient:
  "nonNull derData \<Longrightarrow>
     backward_plan derData derFilters data filters derOutput
       = backward_plan derData derFilters' data' filters derOutput"
  by (simp add: backward_plan_def backward_numGroups_def backward_filtersVolume_def)


lemma forward_groups_succeed:
  assumes ps: "primitives_succeed ctx"
  shows "\<exists>st'. forward_groups ctx dT P oM dM filters img oOff g st = Continue st' \<and>
           fw_error st' = (if g < numGroups P then Some vlSuccess else fw_error st)"
proof (induction "numGroups P - g" arbitrary: g st)
  case 0
  then show ?case by (simp add: forward_groups.simps)
next
  case (Suc n)
  then have lt: "g < numGroups P" and n: "n = numGroups P - Suc g" by simp_all
  have ok: "fst (gemm ctx c A B C) = vlSuccess" for c A B C
    using ps by (simp add: primitives_succeed_def)
  let ?c = "forward_gemm dT P oM dM oOff g"
  let ?r = "gemm ctx ?c (fw_temp st) (getMemory filters) (fw_output st)"
  let ?st1 = "st\<lparr>fw_output := snd ?r, fw_error := Some (fst ?r),
                  fw_trace := fw_trace st @ [(img, Gemm ?c, fst ?r)]\<rparr>"
  have step: "forward_groups ctx dT P oM dM filters img oOff g st
                = forward_groups ctx dT P oM dM filters img oOff (Suc g) ?st1"
    using lt ok by (subst forward_groups.simps) (simp add: Let_def)
  from Suc.hyps(1) [OF n, of ?st1] obtain st' where
    "forward_groups ctx dT P oM dM filters img oOff (Suc g) ?st1 = Continue st'"
    "fw_error st' = (if Suc g < numGroups P then Some vlSuccess else fw_error ?st1)"
    by (elim exE conjE) (rule that, assumption+)
  then show ?case using step lt ok by auto
qed

lemma forward_image_succeed:
  assumes ps: "primitives_succeed ctx"
  shows "\<exists>st'. forward_image ctx dT P allOnes output oM data dM filters biases G img st
                 = Continue st' \<and> fw_error st' = Some vlSuccess"
proof -
  have v: "fst (vol2row ctx vc src dst) = vlSuccess" for vc src dst
    using ps by (simp add: primitives_succeed_def)
  have g: "fst (gemm ctx c A B C) = vlSuccess" for c A B C
    using ps by (simp add: primitives_succeed_def)
  let ?vc = "volArgs data filters G"
  let ?r = "vol2row ctx ?vc (offset_ptr (getMemory data) (imageOffset data img)) (fw_temp st)"
  let ?st1 = "st\<lparr>fw_temp := snd ?r, fw_error := Some (fst ?r),
                  fw_trace := fw_trace st @ [(img, Vol2row ?vc, fst ?r)]\<rparr>"
  from forward_groups_succeed [OF ps, of dT P oM dM filters img "imageOffset output img" 0 ?st1]
  obtain st2 where
    run: "forward_groups ctx dT P oM dM filters img (imageOffset output img) 0 ?st1
            = Continue st2"
    and err: "fw_error st2 = (if 0 < numGroups P then Some vlSuccess else fw_error ?st1)"
    by (elim exE conjE) (rule that, assumption+)
  have err2: "fw_error st2 = Some vlSuccess" using err v by simp
  show ?thesis using run err2 v g by (simp add: forward_image_def Let_def)
qed

lemma forward_images_succeed:
  assumes ps: "primitives_succeed ctx"
  shows "\<exists>st'. forward_images ctx dT P allOnes output oM data dM filters biases G img st
                 = Continue st' \<and>
           fw_error st' = (if img < getDimension data 4 then Some vlSuccess else fw_error st)"
proof (induction "getDimension data 4 - img" arbitrary: img st)
  case 0
  then show ?case by (simp add: forward_images.simps)
next
  case (Suc n)
  then have lt: "img < getDimension data 4" and n: "n = getDimension data 4 - Suc img"
    by simp_all
  from forward_image_succeed [OF ps, of dT P allOnes "output" oM data dM filters biases G img st]
  obtain st1 where
    one: "forward_image ctx dT P allOnes output oM data dM filters biases G img st
            = Continue st1"
    and err1: "fw_error st1 = Some vlSuccess"
    by (elim exE conjE) (rule that, assumption+)
  have step: "forward_images ctx dT P allOnes output oM data dM filters biases G img st
                = forward_images ctx dT P allOnes output oM data dM filters biases G
                    (Suc img) st1"
    using lt one by (subst forward_images.simps) simp
  from Suc.hyps(1) [OF n, of st1] obtain st' where
    "forward_images ctx dT P allOnes output oM data dM filters biases G (Suc img) st1
       = Continue st'"
    "fw_error st' = (if Suc img < getDimension data 4 then Some vlSuccess else fw_error st1)"
    by (elim exE conjE) (rule that, assumption+)
  then show ?case using step lt err1 by auto
qed

lemma forward_succeeds:
  fixes ctx :: "('a::comm_semiring_1) Context"
  assumes ps: "primitives_succeed ctx"
    and nn: "nonNull output" "nonNull data" "nonNull filters"
    and ng: "getDimension data 3 div getDimension filters 3 \<noteq> 0"
    and ws: "getWorkspace ctx (tempVolume (forward_plan output data filters)
                                 * sizeofType dataType) = Some tempMemory"
    and ao: "getAllOnes ctx dataType (numOutputPixels (forward_plan output data filters))
               = Some allOnesMemory"
    and n0: "0 < getDimension data 4"
  shows "fst (forward dataType ctx output outputMult data dataMult filters biases G)
           = Inr (passError ctx vlSuccess)"
proof -
  have d3: "getDimension filters 3 \<noteq> 0" using ng by (auto intro: ccontr)
  let ?P = "forward_plan output data filters"
  let ?st0 = "\<lparr>fw_output = getMemory output, fw_temp = tempMemory, fw_error = None,
               fw_trace = []\<rparr>"
  from forward_images_succeed [OF ps, of dataType ?P allOnesMemory "output" outputMult data
         dataMult filters biases G 0 ?st0]
  obtain st where
    run: "forward_images ctx dataType ?P allOnesMemory output outputMult data dataMult
            filters biases G 0 ?st0 = Continue st"
    and err: "fw_error st = (if 0 < getDimension data 4 then Some vlSuccess
                             else fw_error ?st0)"
    by (elim exE conjE) (rule that, assumption+)
  show ?thesis using nn d3 ng ws ao run err n0
    by (simp add: forward_def Let_def forward_done_def)
qed


lemma backward_bias_step_succeed:
  assumes ps: "primitives_succeed ctx"
  shows "\<exists>st'. backward_bias_step ctx dT P allOnes derBiases derOutput img st = Continue st' \<and>
           bw_error st' = (if nonNull derBiases then Some vlSuccess else bw_error st)"
proof -
  have ok: "fst (gemv ctx c A x y) = vlSuccess" for c A x y
    using ps by (simp add: primitives_succeed_def)
  show ?thesis using ok by (simp add: backward_bias_step_def Let_def)
qed

lemma backward_data_groups_succeed:
  assumes ps: "primitives_succeed ctx"
  shows "\<exists>st'. backward_data_groups ctx P filters derOutput img dOff g st = Continue st' \<and>
           bw_derData st' = bw_derData st \<and>
           bw_error st' = (if g < numGroups P then Some vlSuccess else bw_error st)"
proof (induction "numGroups P - g" arbitrary: g st)
  case 0
  then show ?case by (simp add: backward_data_groups.simps)
next
  case (Suc n)
  then have lt: "g < numGroups P" and n: "n = numGroups P - Suc g" by simp_all
  have ok: "fst (gemm ctx c A B C) = vlSuccess" for c A B C
    using ps by (simp add: primitives_succeed_def)
  let ?c = "backward_data_gemm P dOff g :: 'a gemm_call"
  let ?r = "gemm ctx ?c (getMemory derOutput) (getMemory filters) (bw_temp st)"
  let ?st1 = "st\<lparr>bw_temp := snd ?r, bw_error := Some (fst ?r),
                  bw_trace := bw_trace st @ [(img, Gemm ?c, fst ?r)]\<rparr>"
  have step: "backward_data_groups ctx P filters derOutput img dOff g st
                = backward_data_groups ctx P filters derOutput img dOff (Suc g) ?st1"
    using lt ok by (subst backward_data_groups.simps) (simp add: Let_def)
  from Suc.hyps(1) [OF n, of ?st1] obtain st' where
    "backward_data_groups ctx P filters derOutput img dOff (Suc g) ?st1 = Continue st'"
    "bw_derData st' = bw_derData ?st1"
    "bw_error st' = (if Suc g < numGroups P then Some vlSuccess else bw_error ?st1)"
    by (elim exE conjE) (rule that, assumption+)
  then show ?case using step lt ok by auto
qed

lemma backward_data_step_succeed:
  assumes ps: "primitives_succeed ctx"
  shows "\<exists>st'. backward_data_step ctx P derData filters derOutput G img st = Continue st' \<and>
           bw_error st' = (if nonNull derData then Some vlSuccess else bw_error st)"
proof (cases "nonNull derData")
  case False
  then show ?thesis by (simp add: backward_data_step_def)
next
  case True
  have ok: "fst (row2vol ctx vc dst off src) = vlSuccess" for vc dst off src
    using ps by (simp add: primitives_succeed_def)
  from backward_data_groups_succeed [OF ps, of P filters derOutput img
         "imageOffset derOutput img" 0 st]
  obtain st1 where
    "backward_data_groups ctx P filters derOutput img (imageOffset derOutput img) 0 st
       = Continue st1"
    by (elim exE conjE) (rule that, assumption+)
  then show ?thesis using True ok by (simp add: backward_data_step_def Let_def)
qed

lemma backward_filters_groups_succeed:
  assumes ps: "primitives_succeed ctx"
  shows "\<exists>st'. backward_filters_groups ctx dT P derOutput img dOff g st = Continue st' \<and>
           bw_error st' = (if g < numGroups P then Some vlSuccess else bw_error st)"
proof (induction "numGroups P - g" arbitrary: g st)
  case 0
  then show ?case by (simp add: backward_filters_groups.simps)
next
  case (Suc n)
  then have lt: "g < numGroups P" and n: "n = numGroups P - Suc g" by simp_all
  have ok: "fst (gemm ctx c A B C) = vlSuccess" for c A B C
    using ps by (simp add: primitives_succeed_def)
  let ?c = "backward_filters_gemm dT P dOff img g :: 'a gemm_call"
  let ?r = "gemm ctx ?c (bw_temp st) (getMemory derOutput) (bw_derFilters st)"
  let ?st1 = "st\<lparr>bw_derFilters := snd ?r, bw_error := Some (fst ?r),
                  bw_trace := bw_trace st @ [(img, Gemm ?c, fst ?r)]\<rparr>"
  have step: "backward_filters_groups ctx dT P derOutput img dOff g st
                = backward_filters_groups ctx dT P derOutput img dOff (Suc g) ?st1"
    using lt ok by (subst backward_filters_groups.simps) (simp add: Let_def)
  from Suc.hyps(1) [OF n, of ?st1] obtain st' where
    "backward_filters_groups ctx dT P derOutput img dOff (Suc g) ?st1 = Continue st'"
    "bw_error st' = (if Suc g < numGroups P then Some vlSuccess else bw_error ?st1)"
    by (elim exE conjE) (rule that, assumption+)
  then show ?case using step lt ok by auto
qed

lemma backward_filters_step_succeed:
  assumes ps: "primitives_succeed ctx"
  shows "\<exists>st'. backward_filters_step ctx dT P derFilters data derOutput G img st
                 = Continue st' \<and>
           bw_error st' = (if nonNull derFilters then Some vlSuccess else bw_error st)"
proof (cases "nonNull derFilters")
  case False
  then show ?thesis by (simp add: backward_filters_step_def)
next
  case True
  have ok: "fst (vol2row ctx vc src dst) = vlSuccess" for vc src dst
    using ps by (simp add: primitives_succeed_def)
  let ?vc = "volArgs data derFilters G"
  let ?r = "vol2row ctx ?vc (offset_ptr (getMemory data) (imageOffset data img)) (bw_temp st)"
  let ?st1 = "st\<lparr>bw_temp := snd ?r, bw_error := Some (fst ?r),
                  bw_trace := bw_trace st @ [(img, Vol2row ?vc, fst ?r)]\<rparr>"
  from backward_filters_groups_succeed [OF ps, of dT P derOutput img
         "imageOffset derOutput img" 0 ?st1]
  obtain st2 where
    "backward_filters_groups ctx dT P derOutput img (imageOffset derOutput img) 0 ?st1
       = Continue st2"
    "bw_error st2 = (if 0 < numGroups P then Some vlSuccess else bw_error ?st1)"
    by (elim exE conjE) (rule that, assumption+)
  then show ?thesis using True ok by (simp add: backward_filters_step_def Let_def)
qed

lemma backward_image_succeed:
  assumes ps: "primitives_succeed ctx"
  shows "\<exists>st'. backward_image ctx dT P allOnes derData derFilters derBiases data filters
                   derOutput G img st = Continue st' \<and>
           bw_error st' = (if nonNull derBiases \<or> nonNull derData \<or> nonNull derFilters
                           then Some vlSuccess else bw_error st)"
proof -
  from backward_bias_step_succeed [OF ps, of dT P allOnes derBiases derOutput img st]
  obtain st1 where
    s1: "backward_bias_step ctx dT P allOnes derBiases derOutput img st = Continue st1"
    and e1: "bw_error st1 = (if nonNull derBiases then Some vlSuccess else bw_error st)"
    by (elim exE conjE) (rule that, assumption+)
  from backward_data_step_succeed [OF ps, of P derData filters derOutput G img st1]
  obtain st2 where
    s2: "backward_data_step ctx P derData filters derOutput G img st1 = Continue st2"
    and e2: "bw_error st2 = (if nonNull derData then Some vlSuccess else bw_error st1)"
    by (elim exE conjE) (rule that, assumption+)
  from backward_filters_step_succeed [OF ps, of dT P derFilters data derOutput G img st2]
  obtain st3 where
    s3: "backward_filters_step ctx dT P derFilters data derOutput G img st2 = Continue st3"
    and e3: "bw_error st3 = (if nonNull derFilters then Some vlSuccess else bw_error st2)"
    by (elim exE conjE) (rule that, assumption+)
  show ?thesis using s1 s2 s3 e1 e2 e3 by (simp add: backward_image_def)
qed

lemma backward_images_succeed:
  assumes ps: "primitives_succeed ctx"
    and req: "nonNull derBiases \<or> nonNull derData \<or> nonNull derFilters"
  shows "\<exists>st'. backward_images ctx dT P allOnes derData derFilters derBiases data filters
                   derOutput G img st = Continue st' \<and>
           bw_error st' = (if img < getDimension derOutput 4 then Some vlSuccess
                           else bw_error st)"
proof (induction "getDimension derOutput 4 - img" arbitrary: img st)
  case 0
  then show ?case by (simp add: backward_images.simps)
next
  case (Suc n)
  then have lt: "img < getDimension derOutput 4"
    and n: "n = getDimension derOutput 4 - Suc img" by simp_all
  from backward_image_succeed [OF ps, of dT P allOnes derData derFilters derBiases data
         filters derOutput G img st]
  obtain st1 where
    one: "backward_image ctx dT P allOnes derData derFilters derBiases data filters
            derOutput G img st = Continue st1"
    and err1: "bw_error st1 = Some vlSuccess"
    using req by (elim exE conjE) (rule that, simp_all)
  have step: "backward_images ctx dT P allOnes derData derFilters derBiases data filters
                derOutput G img st
              = backward_images ctx dT P allOnes derData derFilters derBiases data filters
                  derOutput G (Suc img) st1"
    using lt one by (subst backward_images.simps) simp
  from Suc.hyps(1) [OF n, of st1] obtain st' where
    "backward_images ctx dT P allOnes derData derFilters derBiases data filters
       derOutput G (Suc img) st1 = Continue st'"
    "bw_error st' = (if Suc img < getDimension derOutput 4 then Some vlSuccess
                     else bw_error st1)"
    by (elim exE conjE) (rule that, assumption+)
  then show ?case using step lt err1 by auto
qed

lemma backward_succeeds:
  fixes ctx :: "('a::comm_semiring_1) Context"
  assumes ps: "primitives_succeed ctx"
    and nn: "nonNull derOutput"
    and ao: "backward_allOnes ctx dataType derBiases
               (getDimension derOutput 0 * getDimension derOutput 1 * getDimension derOutput 2)
             = Some allOnesMemory"
    and a1: "nonNull derData \<longrightarrow> nonNull filters"
    and a2: "\<not> nonNull derData \<and> nonNull derFilters \<longrightarrow> nonNull data"
    and ng: "backward_numGroups derData derFilters data filters \<noteq> 0"
    and ws: "backward_workspace ctx dataType
               (backward_plan derData derFilters data filters derOutput) = Some tempMemory"
    and n0: "0 < getDimension derOutput 4"
  shows "fst (backward dataType ctx derData derFilters derBiases data filters
                          derOutput G)
           = Inr (passError ctx vlSuccess)"
proof -
  have req: "nonNull derBiases \<or> nonNull derData \<or> nonNull derFilters"
    using ng by (auto simp: backward_numGroups_def split: if_splits)
  have d1: "nonNull derData \<longrightarrow> getDimension filters 3 \<noteq> 0"
    using ng by (auto simp: backward_numGroups_def intro: ccontr)
  have d2: "\<not> nonNull derData \<and> nonNull derFilters \<longrightarrow> getDimension derFilters 3 \<noteq> 0"
    using ng by (auto simp: backward_numGroups_def intro: ccontr)
  let ?P = "backward_plan derData derFilters data filters derOutput"
  let ?st0 = "\<lparr>bw_derData = getMemory derData, bw_derFilters = getMemory derFilters,
               bw_derBiases = getMemory derBiases, bw_temp = tempMemory, bw_error = None,
               bw_trace = []\<rparr>"
  from backward_images_succeed [OF ps req, of dataType ?P allOnesMemory data filters
         derOutput G 0 ?st0]
  obtain st where
    run: "backward_images ctx dataType ?P allOnesMemory derData derFilters derBiases data
            filters derOutput G 0 ?st0 = Continue st"
    and err: "bw_error st = (if 0 < getDimension derOutput 4 then Some vlSuccess
                             else bw_error ?st0)"
    by (elim exE conjE) (rule that, assumption+)
  show ?thesis using nn ao a1 a2 d1 d2 ng ws run err n0
    by (auto simp: backward_def Let_def backward_done_def)
qed


lemma all_succeeded_snoc:
  "all_succeeded tr err \<Longrightarrow> all_succeeded (tr @ [(img, c, vlSuccess)]) (Some vlSuccess)"
  by (simp add: all_succeeded_def succeeded_def)

lemma stopped_at_failure_snoc:
  "all_succeeded tr err \<Longrightarrow> e \<noteq> vlSuccess \<Longrightarrow>
     stopped_at_failure (tr @ [(img, c, e)]) (Some e)"
  by (simp add: all_succeeded_def stopped_at_failure_def succeeded_def)

lemma forward_groups_log:
  assumes "all_succeeded (fw_trace st) (fw_error st)"
  shows "forward_flow_ok (forward_groups ctx dT P oM dM filters img oOff g st)"
  using assms
proof (induction "numGroups P - g" arbitrary: g st)
  case 0
  then show ?case by (simp add: forward_groups.simps)
next
  case (Suc n)
  then have lt: "g < numGroups P" and n: "n = numGroups P - Suc g" by simp_all
  let ?c = "forward_gemm dT P oM dM oOff g"
  let ?r = "gemm ctx ?c (fw_temp st) (getMemory filters) (fw_output st)"
  let ?st1 = "st\<lparr>fw_output := snd ?r, fw_error := Some (fst ?r),
                  fw_trace := fw_trace st @ [(img, Gemm ?c, fst ?r)]\<rparr>"
  show ?case
  proof (cases "fst ?r = vlSuccess")
    case True
    then have "all_succeeded (fw_trace ?st1) (fw_error ?st1)"
      using all_succeeded_snoc [OF Suc.prems] by simp
    from Suc.hyps(1) [OF n this] show ?thesis
      using lt True by (subst forward_groups.simps) (simp add: Let_def)
  next
    case False
    then show ?thesis
      using lt stopped_at_failure_snoc [OF Suc.prems False]
      by (subst forward_groups.simps) (simp add: Let_def)
  qed
qed

lemma forward_image_log:
  assumes a: "all_succeeded (fw_trace st) (fw_error st)"
  shows "forward_flow_ok
           (forward_image ctx dT P allOnes output oM data dM filters biases G img st)"
proof -
  let ?vc = "volArgs data filters G"
  let ?r = "vol2row ctx ?vc (offset_ptr (getMemory data) (imageOffset data img)) (fw_temp st)"
  let ?st1 = "st\<lparr>fw_temp := snd ?r, fw_error := Some (fst ?r),
                  fw_trace := fw_trace st @ [(img, Vol2row ?vc, fst ?r)]\<rparr>"
  show ?thesis
  proof (cases "fst ?r = vlSuccess")
    case False
    then show ?thesis using stopped_at_failure_snoc [OF a False]
      by (simp add: forward_image_def Let_def)
  next
    case True
    then have a1: "all_succeeded (fw_trace ?st1) (fw_error ?st1)"
      using all_succeeded_snoc [OF a] by simp
    let ?fl = "forward_groups ctx dT P oM dM filters img (imageOffset output img) 0 ?st1"
    have ok: "forward_flow_ok ?fl" using a1 by (rule forward_groups_log)
    show ?thesis
    proof (cases ?fl)
      case (Exit st2)
      then show ?thesis using ok True by (simp add: forward_image_def Let_def)
    next
      case (Continue st2)
      then have a2: "all_succeeded (fw_trace st2) (fw_error st2)" using ok by simp
      let ?c = "forward_bias_gemm dT P biases (imageOffset output img)"
      let ?rb = "gemm ctx ?c allOnes (getMemory biases) (fw_output st2)"
      show ?thesis
      proof (cases "fst ?rb = vlSuccess")
        case s: True
        show ?thesis using Continue True s a2 all_succeeded_snoc [OF a2]
          by (simp add: forward_image_def Let_def)
      next
        case f: False
        show ?thesis using Continue True f a2 stopped_at_failure_snoc [OF a2 f]
          by (simp add: forward_image_def Let_def)
      qed
    qed
  qed
qed

lemma forward_images_log:
  assumes "all_succeeded (fw_trace st) (fw_error st)"
  shows "forward_flow_ok
           (forward_images ctx dT P allOnes output oM data dM filters biases G img st)"
  using assms
proof (induction "getDimension data 4 - img" arbitrary: img st)
  case 0
  then show ?case by (simp add: forward_images.simps)
next
  case (Suc n)
  then have lt: "img < getDimension data 4" and n: "n = getDimension data 4 - Suc img"
    by simp_all
  let ?fl = "forward_image ctx dT P allOnes output oM data dM filters biases G img st"
  have ok: "forward_flow_ok ?fl" using Suc.prems by (rule forward_image_log)
  show ?case
  proof (cases ?fl)
    case (Exit st1)
    then show ?thesis using ok lt by (subst forward_images.simps) simp
  next
    case (Continue st1)
    then have "all_succeeded (fw_trace st1) (fw_error st1)" using ok by simp
    from Suc.hyps(1) [OF n this] show ?thesis
      using Continue lt by (subst forward_images.simps) simp
  qed
qed


lemma backward_bias_step_log:
  assumes a: "all_succeeded (bw_trace st) (bw_error st)"
  shows "backward_flow_ok (backward_bias_step ctx dT P allOnes derBiases derOutput img st)"
proof -
  let ?c = "backward_bias_gemv dT P derOutput (imageOffset derOutput img) img :: 'a gemv_call"
  let ?r = "gemv ctx ?c (getMemory derOutput) allOnes (bw_derBiases st)"
  show ?thesis
  proof (cases "fst ?r = vlSuccess")
    case True
    then show ?thesis using a all_succeeded_snoc [OF a]
      by (simp add: backward_bias_step_def Let_def)
  next
    case False
    then show ?thesis using a stopped_at_failure_snoc [OF a False]
      by (simp add: backward_bias_step_def Let_def)
  qed
qed

lemma backward_data_groups_log:
  assumes "all_succeeded (bw_trace st) (bw_error st)"
  shows "backward_flow_ok (backward_data_groups ctx P filters derOutput img dOff g st)"
  using assms
proof (induction "numGroups P - g" arbitrary: g st)
  case 0
  then show ?case by (simp add: backward_data_groups.simps)
next
  case (Suc n)
  then have lt: "g < numGroups P" and n: "n = numGroups P - Suc g" by simp_all
  let ?c = "backward_data_gemm P dOff g :: 'a gemm_call"
  let ?r = "gemm ctx ?c (getMemory derOutput) (getMemory filters) (bw_temp st)"
  let ?st1 = "st\<lparr>bw_temp := snd ?r, bw_error := Some (fst ?r),
                  bw_trace := bw_trace st @ [(img, Gemm ?c, fst ?r)]\<rparr>"
  show ?case
  proof (cases "fst ?r = vlSuccess")
    case True
    then have "all_succeeded (bw_trace ?st1) (bw_error ?st1)"
      using all_succeeded_snoc [OF Suc.prems] by simp
    from Suc.hyps(1) [OF n this] show ?thesis
      using lt True by (subst backward_data_groups.simps) (simp add: Let_def)
  next
    case False
    then show ?thesis
      using lt stopped_at_failure_snoc [OF Suc.prems False]
      by (subst backward_data_groups.simps) (simp add: Let_def)
  qed
qed

lemma backward_data_step_log:
  assumes a: "all_succeeded (bw_trace st) (bw_error st)"
  shows "backward_flow_ok (backward_data_step ctx P derData filters derOutput G img st)"
proof (cases "nonNull derData")
  case False
  then show ?thesis using a by (simp add: backward_data_step_def)
next
  case True
  let ?fl = "backward_data_groups ctx P filters derOutput img (imageOffset derOutput img) 0 st"
  have ok: "backward_flow_ok ?fl" using a by (rule backward_data_groups_log)
  show ?thesis
  proof (cases ?fl)
    case (Exit st1)
    then show ?thesis using ok True by (simp add: backward_data_step_def Let_def)
  next
    case (Continue st1)
    then have a1: "all_succeeded (bw_trace st1) (bw_error st1)" using ok by simp
    let ?vc = "volArgs derData filters G"
    let ?r = "row2vol ctx ?vc (bw_derData st1) (imageOffset derData img) (bw_temp st1)"
    show ?thesis
    proof (cases "fst ?r = vlSuccess")
      case s: True
      show ?thesis using Continue True s all_succeeded_snoc [OF a1]
        by (simp add: backward_data_step_def Let_def)
    next
      case f: False
      show ?thesis using Continue True f stopped_at_failure_snoc [OF a1 f]
        by (simp add: backward_data_step_def Let_def)
    qed
  qed
qed

lemma backward_filters_groups_log:
  assumes "all_succeeded (bw_trace st) (bw_error st)"
  shows "backward_flow_ok (backward_filters_groups ctx dT P derOutput img dOff g st)"
  using assms
proof (induction "numGroups P - g" arbitrary: g st)
  case 0
  then show ?case by (simp add: backward_filters_groups.simps)
next
  case (Suc n)
  then have lt: "g < numGroups P" and n: "n = numGroups P - Suc g" by simp_all
  let ?c = "backward_filters_gemm dT P dOff img g :: 'a gemm_call"
  let ?r = "gemm ctx ?c (bw_temp st) (getMemory derOutput) (bw_derFilters st)"
  let ?st1 = "st\<lparr>bw_derFilters := snd ?r, bw_error := Some (fst ?r),
                  bw_trace := bw_trace st @ [(img, Gemm ?c, fst ?r)]\<rparr>"
  show ?case
  proof (cases "fst ?r = vlSuccess")
    case True
    then have "all_succeeded (bw_trace ?st1) (bw_error ?st1)"
      using all_succeeded_snoc [OF Suc.prems] by simp
    from Suc.hyps(1) [OF n this] show ?thesis
      using lt True by (subst backward_filters_groups.simps) (simp add: Let_def)
  next
    case False
    then show ?thesis
      using lt stopped_at_failure_snoc [OF Suc.prems False]
      by (subst backward_filters_groups.simps) (simp add: Let_def)
  qed
qed

lemma backward_filters_step_log:
  assumes a: "all_succeeded (bw_trace st) (bw_error st)"
  shows "backward_flow_ok
           (backward_filters_step ctx dT P derFilters data derOutput G img st)"
proof (cases "nonNull derFilters")
  case False
  then show ?thesis using a by (simp add: backward_filters_step_def)
next
  case True
  let ?vc = "volArgs data derFilters G"
  let ?r = "vol2row ctx ?vc (offset_ptr (getMemory data) (imageOffset data img)) (bw_temp st)"
  let ?st1 = "st\<lparr>bw_temp := snd ?r, bw_error := Some (fst ?r),
                  bw_trace := bw_trace st @ [(img, Vol2row ?vc, fst ?r)]\<rparr>"
  show ?thesis
  proof (cases "fst ?r = vlSuccess")
    case f: False
    then show ?thesis using True stopped_at_failure_snoc [OF a f]
      by (simp add: backward_filters_step_def Let_def)
  next
    case s: True
    then have a1: "all_succeeded (bw_trace ?st1) (bw_error ?st1)"
      using all_succeeded_snoc [OF a] by simp
    have "backward_flow_ok
            (backward_filters_groups ctx dT P derOutput img (imageOffset derOutput img) 0 ?st1)"
      using a1 by (rule backward_filters_groups_log)
    then show ?thesis using True s by (simp add: backward_filters_step_def Let_def)
  qed
qed

lemma backward_image_log:
  assumes a: "all_succeeded (bw_trace st) (bw_error st)"
  shows "backward_flow_ok
           (backward_image ctx dT P allOnes derData derFilters derBiases data filters
              derOutput G img st)"
proof -
  let ?f1 = "backward_bias_step ctx dT P allOnes derBiases derOutput img st"
  have ok1: "backward_flow_ok ?f1" using a by (rule backward_bias_step_log)
  show ?thesis
  proof (cases ?f1)
    case (Exit st1)
    then show ?thesis using ok1 by (simp add: backward_image_def)
  next
    case c1: (Continue st1)
    then have a1: "all_succeeded (bw_trace st1) (bw_error st1)" using ok1 by simp
    let ?f2 = "backward_data_step ctx P derData filters derOutput G img st1"
    have ok2: "backward_flow_ok ?f2" using a1 by (rule backward_data_step_log)
    show ?thesis
    proof (cases ?f2)
      case (Exit st2)
      then show ?thesis using ok2 c1 by (simp add: backward_image_def)
    next
      case c2: (Continue st2)
      then have a2: "all_succeeded (bw_trace st2) (bw_error st2)" using ok2 by simp
      have "backward_flow_ok
              (backward_filters_step ctx dT P derFilters data derOutput G img st2)"
        using a2 by (rule backward_filters_step_log)
      then show ?thesis using c1 c2 by (simp add: backward_image_def)
    qed
  qed
qed

lemma backward_images_log:
  assumes "all_succeeded (bw_trace st) (bw_error st)"
  shows "backward_flow_ok
           (backward_images ctx dT P allOnes derData derFilters derBiases data filters
              derOutput G img st)"
  using assms
proof (induction "getDimension derOutput 4 - img" arbitrary: img st)
  case 0
  then show ?case by (simp add: backward_images.simps)
next
  case (Suc n)
  then have lt: "img < getDimension derOutput 4"
    and n: "n = getDimension derOutput 4 - Suc img" by simp_all
  let ?fl = "backward_image ctx dT P allOnes derData derFilters derBiases data filters
               derOutput G img st"
  have ok: "backward_flow_ok ?fl" using Suc.prems by (rule backward_image_log)
  show ?case
  proof (cases ?fl)
    case (Exit st1)
    then show ?thesis using ok lt by (subst backward_images.simps) simp
  next
    case (Continue st1)
    then have "all_succeeded (bw_trace st1) (bw_error st1)" using ok by simp
    from Suc.hyps(1) [OF n this] show ?thesis
      using Continue lt by (subst backward_images.simps) simp
  qed
qed

lemma list_all_butlast: "list_all Q xs \<Longrightarrow> list_all Q (butlast xs)"
  by (induction xs) auto

lemma forward_log:
  fixes ctx :: "('a::comm_semiring_1) Context"
  assumes r_def: "r = forward dataType ctx output outputMult data dataMult filters biases G"
  shows "list_all succeeded (butlast (fw_trace (snd r)))"
    and "\<not> list_all succeeded (fw_trace (snd r)) \<Longrightarrow>
           fst r = Inr (passError ctx (snd (snd (last (fw_trace (snd r))))))"
proof -
  let ?P = "forward_plan output data filters"
  let ?st0 = "\<lparr>fw_output = getMemory output, fw_temp = (\<lambda>i. 0), fw_error = None,
               fw_trace = []\<rparr> :: 'a forward_state"
  have main: "list_all succeeded (butlast (fw_trace (snd r))) \<and>
        (\<not> list_all succeeded (fw_trace (snd r)) \<longrightarrow>
           fst r = Inr (passError ctx (snd (snd (last (fw_trace (snd r)))))))"
  proof (cases "\<exists>t a. nonNull output \<and> nonNull data \<and> nonNull filters
                  \<and> getDimension filters 3 \<noteq> 0
                  \<and> getDimension data 3 div getDimension filters 3 \<noteq> 0
                  \<and> getWorkspace ctx (tempVolume ?P * sizeofType dataType) = Some t
                  \<and> getAllOnes ctx dataType (numOutputPixels ?P) = Some a")
    case False
    then have "fw_trace (snd r) = []"
      by (auto simp: r_def forward_def Let_def forward_done_def
            split: option.splits prod.splits)
    then show ?thesis by simp
  next
    case True
    then obtain t a where g: "nonNull output" "nonNull data" "nonNull filters"
        "getDimension filters 3 \<noteq> 0" "getDimension data 3 div getDimension filters 3 \<noteq> 0"
      and ws: "getWorkspace ctx (tempVolume ?P * sizeofType dataType) = Some t"
      and ao: "getAllOnes ctx dataType (numOutputPixels ?P) = Some a"
      by blast
    let ?fl = "forward_images ctx dataType ?P a output outputMult data dataMult filters
                 biases G 0 (?st0\<lparr>fw_temp := t\<rparr>)"
    have r: "r = forward_done ctx (flow_state ?fl)"
      using g ws ao by (simp add: r_def forward_def Let_def)
    have ok: "forward_flow_ok ?fl"
      by (rule forward_images_log) (simp add: all_succeeded_def)
    show ?thesis
    proof (cases ?fl)
      case (Continue s)
      then have "all_succeeded (fw_trace s) (fw_error s)" using ok by simp
      then have "list_all succeeded (fw_trace s)" by (simp add: all_succeeded_def)
      moreover have "fw_trace (snd r) = fw_trace s"
        using r Continue by (simp add: forward_done_def split: option.splits)
      ultimately show ?thesis by (simp add: list_all_butlast)
    next
      case (Exit s)
      then have "stopped_at_failure (fw_trace s) (fw_error s)" using ok by simp
      then show ?thesis using r Exit by (simp add: stopped_at_failure_def forward_done_def)
    qed
  qed
  show "list_all succeeded (butlast (fw_trace (snd r)))" using main by simp
  show "\<not> list_all succeeded (fw_trace (snd r)) \<Longrightarrow>
           fst r = Inr (passError ctx (snd (snd (last (fw_trace (snd r))))))"
    using main by simp
qed


lemma backward_log:
  fixes ctx :: "('a::comm_semiring_1) Context"
  assumes r_def: "r = backward dataType ctx derData derFilters derBiases data filters
                        derOutput G"
  shows "list_all succeeded (butlast (bw_trace (snd r)))"
    and "\<not> list_all succeeded (bw_trace (snd r)) \<Longrightarrow>
           fst r = Inr (snd (snd (last (bw_trace (snd r)))))"
proof -
  let ?P = "backward_plan derData derFilters data filters derOutput"
  let ?nOP = "getDimension derOutput 0 * getDimension derOutput 1 * getDimension derOutput 2"
  let ?st0 = "\<lparr>bw_derData = getMemory derData, bw_derFilters = getMemory derFilters,
               bw_derBiases = getMemory derBiases, bw_temp = (\<lambda>i. 0), bw_error = None,
               bw_trace = []\<rparr> :: 'a backward_state"
  have main: "list_all succeeded (butlast (bw_trace (snd r))) \<and>
        (\<not> list_all succeeded (bw_trace (snd r)) \<longrightarrow>
           fst r = Inr (snd (snd (last (bw_trace (snd r))))))"
  proof (cases "\<exists>t a. nonNull derOutput
                  \<and> backward_allOnes ctx dataType derBiases ?nOP = Some a
                  \<and> (nonNull derData \<longrightarrow> nonNull filters \<and> getDimension filters 3 \<noteq> 0)
                  \<and> (\<not> nonNull derData \<and> nonNull derFilters
                        \<longrightarrow> nonNull data \<and> getDimension derFilters 3 \<noteq> 0)
                  \<and> backward_numGroups derData derFilters data filters \<noteq> 0
                  \<and> backward_workspace ctx dataType ?P = Some t")
    case False
    then have "bw_trace (snd r) = []"
      by (auto simp: r_def backward_def Let_def backward_done_def
            split: option.splits prod.splits)
    then show ?thesis by simp
  next
    case True
    then obtain t a where g: "nonNull derOutput"
        "nonNull derData \<longrightarrow> nonNull filters \<and> getDimension filters 3 \<noteq> 0"
        "\<not> nonNull derData \<and> nonNull derFilters
           \<longrightarrow> nonNull data \<and> getDimension derFilters 3 \<noteq> 0"
        "backward_numGroups derData derFilters data filters \<noteq> 0"
      and ao: "backward_allOnes ctx dataType derBiases ?nOP = Some a"
      and ws: "backward_workspace ctx dataType ?P = Some t"
      by blast
    let ?fl = "backward_images ctx dataType ?P a derData derFilters derBiases data filters
                 derOutput G 0 (?st0\<lparr>bw_temp := t\<rparr>)"
    have r: "r = (case ?fl of Exit st \<Rightarrow> backward_return st
                            | Continue st \<Rightarrow> backward_done ctx st)"
      using g ws ao by (auto simp: r_def backward_def Let_def)
    have ok: "backward_flow_ok ?fl"
      by (rule backward_images_log) (simp add: all_succeeded_def)
    show ?thesis
    proof (cases ?fl)
      case (Continue s)
      then have "all_succeeded (bw_trace s) (bw_error s)" using ok by simp
      then have "list_all succeeded (bw_trace s)" by (simp add: all_succeeded_def)
      moreover have "bw_trace (snd r) = bw_trace s"
        using r Continue by (simp add: backward_done_def split: option.splits)
      ultimately show ?thesis by (simp add: list_all_butlast)
    next
      case (Exit s)
      then have "stopped_at_failure (bw_trace s) (bw_error s)" using ok by simp
      then show ?thesis using r Exit
        by (simp add: stopped_at_failure_def backward_return_def)
    qed
  qed
  show "list_all succeeded (butlast (bw_trace (snd r)))" using main by simp
  show "\<not> list_all succeeded (bw_trace (snd r)) \<Longrightarrow>
           fst r = Inr (snd (snd (last (bw_trace (snd r)))))"
    using main by simp
qed

lemma failed_last: "\<not> list_all succeeded tr \<Longrightarrow> list_all succeeded (butlast tr) \<Longrightarrow>
  \<not> succeeded (last tr)"
  by (induction tr) (auto split: if_splits)

text \<open>C9: in the log of a forward or a backward call every primitive call but the last
  succeeded, so a failing call is the last one made: no later stage and no later image
  follows it. When a call failed, and when the scratch space or the ones vector could not
  be acquired (then no primitive is called at all), the function returns, with a status
  other than success, provided the context's \<^verbatim>\<open>passError\<close> keeps a failure a failure
  and its last error after a failed acquisition is one.\<close>

theorem first_failure_ends_the_call:
  fixes ctx :: "('a::comm_semiring_1) Context"
  assumes pe: "\<forall>e. e \<noteq> vlSuccess \<longrightarrow> passError ctx e \<noteq> vlSuccess"
    and le: "getLastError ctx \<noteq> vlSuccess"
  shows "(let r = forward dataType ctx output outputMult data dataMult filters biases G;
              P = forward_plan output data filters
          in list_all succeeded (butlast (fw_trace (snd r))) \<and>
             (\<not> list_all succeeded (fw_trace (snd r)) \<longrightarrow> returns_failure (fst r)) \<and>
             (nonNull output \<and> nonNull data \<and> nonNull filters
                \<and> getDimension data 3 div getDimension filters 3 \<noteq> 0
                \<and> (getWorkspace ctx (tempVolume P * sizeofType dataType) = None
                     \<or> getAllOnes ctx dataType (numOutputPixels P) = None)
              \<longrightarrow> returns_failure (fst r) \<and> fw_trace (snd r) = [])) \<and>
         (let r = backward dataType ctx derData derFilters derBiases data filters derOutput G;
              P = backward_plan derData derFilters data filters derOutput
          in list_all succeeded (butlast (bw_trace (snd r))) \<and>
             (\<not> list_all succeeded (bw_trace (snd r)) \<longrightarrow> returns_failure (fst r)) \<and>
             (nonNull derOutput
                \<and> backward_allOnes ctx dataType derBiases (numOutputPixels P) = None
              \<longrightarrow> returns_failure (fst r) \<and> bw_trace (snd r) = []) \<and>
             (nonNull derOutput
                \<and> backward_allOnes ctx dataType derBiases (numOutputPixels P) \<noteq> None
                \<and> (nonNull derData \<longrightarrow> nonNull filters)
                \<and> (\<not> nonNull derData \<and> nonNull derFilters \<longrightarrow> nonNull data)
                \<and> numGroups P \<noteq> 0
                \<and> backward_workspace ctx dataType P = None
              \<longrightarrow> returns_failure (fst r) \<and> bw_trace (snd r) = []))"
proof -
  let ?fr = "forward dataType ctx output outputMult data dataMult filters biases G"
  let ?fP = "forward_plan output data filters"
  let ?br = "backward dataType ctx derData derFilters derBiases data filters derOutput G"
  let ?bP = "backward_plan derData derFilters data filters derOutput"
  have pl: "passError ctx (getLastError ctx) \<noteq> vlSuccess" using pe le by simp
  have f1: "list_all succeeded (butlast (fw_trace (snd ?fr)))"
    by (rule forward_log(1)) (rule refl)
  have f2: "returns_failure (fst ?fr)" if n: "\<not> list_all succeeded (fw_trace (snd ?fr))"
  proof -
    have "\<not> succeeded (last (fw_trace (snd ?fr)))" using n f1 by (rule failed_last)
    then show ?thesis using forward_log(2) [OF refl n] pe by (simp add: succeeded_def)
  qed
  have f3: "returns_failure (fst ?fr) \<and> fw_trace (snd ?fr) = []"
    if "nonNull output \<and> nonNull data \<and> nonNull filters
          \<and> getDimension data 3 div getDimension filters 3 \<noteq> 0
          \<and> (getWorkspace ctx (tempVolume ?fP * sizeofType dataType) = None
               \<or> getAllOnes ctx dataType (numOutputPixels ?fP) = None)"
  proof -
    from that have "getDimension filters 3 \<noteq> 0" by (auto intro: ccontr)
    then show ?thesis using that pl
      by (auto simp: forward_def Let_def forward_done_def split: option.splits)
  qed
  have b1: "list_all succeeded (butlast (bw_trace (snd ?br)))"
    by (rule backward_log(1)) (rule refl)
  have b2: "returns_failure (fst ?br)" if n: "\<not> list_all succeeded (bw_trace (snd ?br))"
  proof -
    have "\<not> succeeded (last (bw_trace (snd ?br)))" using n b1 by (rule failed_last)
    then show ?thesis using backward_log(2) [OF refl n] by (simp add: succeeded_def)
  qed
  have nop: "numOutputPixels ?bP
    = getDimension derOutput 0 * getDimension derOutput 1 * getDimension derOutput 2"
    by (simp add: backward_plan_def Let_def)
  have ngr: "numGroups ?bP = backward_numGroups derData derFilters data filters"
    by (simp add: backward_plan_def Let_def)
  have b3: "returns_failure (fst ?br) \<and> bw_trace (snd ?br) = []"
    if "nonNull derOutput
          \<and> backward_allOnes ctx dataType derBiases (numOutputPixels ?bP) = None"
    using that pl by (simp add: nop backward_def Let_def backward_done_def)
  have b4: "returns_failure (fst ?br) \<and> bw_trace (snd ?br) = []"
    if h: "nonNull derOutput
          \<and> backward_allOnes ctx dataType derBiases (numOutputPixels ?bP) \<noteq> None
          \<and> (nonNull derData \<longrightarrow> nonNull filters)
          \<and> (\<not> nonNull derData \<and> nonNull derFilters \<longrightarrow> nonNull data)
          \<and> numGroups ?bP \<noteq> 0
          \<and> backward_workspace ctx dataType ?bP = None"
  proof -
    from h have ng: "backward_numGroups derData derFilters data filters \<noteq> 0"
      by (simp add: ngr)
    then have d1: "nonNull derData \<longrightarrow> getDimension filters 3 \<noteq> 0"
      and d2: "\<not> nonNull derData \<and> nonNull derFilters \<longrightarrow> getDimension derFilters 3 \<noteq> 0"
      by (auto simp: backward_numGroups_def intro: ccontr)
    from h obtain a where
      "backward_allOnes ctx dataType derBiases
         (getDimension derOutput 0 * getDimension derOutput 1 * getDimension derOutput 2)
       = Some a"
      by (auto simp: nop)
    then show ?thesis using h ng d1 d2 pl
      by (auto simp: backward_def Let_def backward_done_def)
  qed
  show ?thesis unfolding Let_def using f1 f2 f3 b1 b2 b3 b4 by blast
qed


text \<open>The theorem at a batch of three images where the multiply of the second image
  fails: the log ends there and the call returns a failure.\<close>

theorem first_failure_ends_the_call_witness:
  "getLastError failingContext \<noteq> vlSuccess \<and>
   map (\<lambda>ev. (fst ev, snd (snd ev)))
     (fw_trace (snd (forward vlTypeFloat failingContext (mkTensor 1 1 1 1 3 1 (\<lambda>i. 0)) 0
        (mkTensor 1 1 1 1 3 1 (\<lambda>i. 5)) 1 (mkTensor 1 1 1 1 1 1 (\<lambda>i. 7))
        (mkTensor 1 1 1 1 1 1 (\<lambda>i. 2)) unitGeometry)))
     = [(0, vlSuccess), (0, vlSuccess), (0, vlSuccess), (1, vlSuccess), (1, vlFailure 7)] \<and>
   returns_failure
     (fst (forward vlTypeFloat failingContext (mkTensor 1 1 1 1 3 1 (\<lambda>i. 0)) 0
        (mkTensor 1 1 1 1 3 1 (\<lambda>i. 5)) 1 (mkTensor 1 1 1 1 1 1 (\<lambda>i. 7))
        (mkTensor 1 1 1 1 1 1 (\<lambda>i. 2)) unitGeometry))"
proof -
  let ?r = "forward vlTypeFloat failingContext (mkTensor 1 1 1 1 3 1 (\<lambda>i. 0)) 0
        (mkTensor 1 1 1 1 3 1 (\<lambda>i. 5)) 1 (mkTensor 1 1 1 1 1 1 (\<lambda>i. 7))
        (mkTensor 1 1 1 1 1 1 (\<lambda>i. 2)) unitGeometry"
  have pe: "\<forall>e. e \<noteq> vlSuccess \<longrightarrow> passError failingContext e \<noteq> vlSuccess"
    by (simp add: failingContext_def refContext_def)
  have le: "getLastError failingContext \<noteq> vlSuccess"
    by (simp add: failingContext_def refContext_def)
  have tr: "map (\<lambda>ev. (fst ev, snd (snd ev))) (fw_trace (snd ?r))
     = [(0, vlSuccess), (0, vlSuccess), (0, vlSuccess), (1, vlSuccess), (1, vlFailure 7)]"
    by code_simp
  have n: "\<not> list_all succeeded (fw_trace (snd ?r))"
    by code_simp
  have "\<not> list_all succeeded (fw_trace (snd ?r)) \<longrightarrow> returns_failure (fst ?r)"
    by (rule first_failure_ends_the_call
          [OF pe le, unfolded Let_def, THEN conjunct1, THEN conjunct2, THEN conjunct1])
  then show ?thesis using le tr n by blast
qed


text \<open>C5, amended: neither function checks that the divisions are exact. The group
  count and the filters per group are the truncated quotients, and when the truncated
  group count is not zero, the buffers are acquired, every primitive succeeds and there
  is at least one image, a forward call and a backward call return the status of
  success, whatever the remainders of the divisions are.\<close>

theorem inexact_division_is_not_rejected:
  fixes ctx :: "('a::comm_semiring_1) Context"
  assumes ps: "primitives_succeed ctx"
  shows "numGroups (forward_plan output data filters)
           = getDimension data 3 div getDimension filters 3 \<and>
         numFiltersPerGroup (forward_plan output data filters)
           = getDimension filters 4 div (getDimension data 3 div getDimension filters 3) \<and>
         (nonNull output \<and> nonNull data \<and> nonNull filters
            \<and> getDimension data 3 div getDimension filters 3 \<noteq> 0
            \<and> getWorkspace ctx (tempVolume (forward_plan output data filters)
                                   * sizeofType dataType) \<noteq> None
            \<and> getAllOnes ctx dataType (numOutputPixels (forward_plan output data filters))
                 \<noteq> None
            \<and> 0 < getDimension data 4
          \<longrightarrow> fst (forward dataType ctx output outputMult data dataMult filters biases G)
                = Inr (passError ctx vlSuccess)) \<and>
         (nonNull derOutput
            \<and> backward_allOnes ctx dataType derBiases
                 (getDimension derOutput 0 * getDimension derOutput 1
                    * getDimension derOutput 2) \<noteq> None
            \<and> (nonNull derData \<longrightarrow> nonNull filters')
            \<and> (\<not> nonNull derData \<and> nonNull derFilters \<longrightarrow> nonNull data')
            \<and> backward_numGroups derData derFilters data' filters' \<noteq> 0
            \<and> backward_workspace ctx dataType
                 (backward_plan derData derFilters data' filters' derOutput) \<noteq> None
            \<and> 0 < getDimension derOutput 4
          \<longrightarrow> fst (backward dataType ctx derData derFilters derBiases data' filters'
                      derOutput G)
                = Inr (passError ctx vlSuccess))"
proof (intro conjI impI)
  show "numGroups (forward_plan output data filters)
           = getDimension data 3 div getDimension filters 3"
    by (simp add: forward_plan_def Let_def)
  show "numFiltersPerGroup (forward_plan output data filters)
           = getDimension filters 4 div (getDimension data 3 div getDimension filters 3)"
    by (simp add: forward_plan_def Let_def)
next
  assume h: "nonNull output \<and> nonNull data \<and> nonNull filters
            \<and> getDimension data 3 div getDimension filters 3 \<noteq> 0
            \<and> getWorkspace ctx (tempVolume (forward_plan output data filters)
                                   * sizeofType dataType) \<noteq> None
            \<and> getAllOnes ctx dataType (numOutputPixels (forward_plan output data filters))
                 \<noteq> None
            \<and> 0 < getDimension data 4"
  then obtain t a where
    "getWorkspace ctx (tempVolume (forward_plan output data filters) * sizeofType dataType)
       = Some t"
    "getAllOnes ctx dataType (numOutputPixels (forward_plan output data filters)) = Some a"
    by auto
  with h show "fst (forward dataType ctx output outputMult data dataMult filters biases G)
                = Inr (passError ctx vlSuccess)"
    by (intro forward_succeeds [OF ps]) simp_all
next
  assume h: "nonNull derOutput
            \<and> backward_allOnes ctx dataType derBiases
                 (getDimension derOutput 0 * getDimension derOutput 1
                    * getDimension derOutput 2) \<noteq> None
            \<and> (nonNull derData \<longrightarrow> nonNull filters')
            \<and> (\<not> nonNull derData \<and> nonNull derFilters \<longrightarrow> nonNull data')
            \<and> backward_numGroups derData derFilters data' filters' \<noteq> 0
            \<and> backward_workspace ctx dataType
                 (backward_plan derData derFilters data' filters' derOutput) \<noteq> None
            \<and> 0 < getDimension derOutput 4"
  then obtain t a where
    "backward_allOnes ctx dataType derBiases
       (getDimension derOutput 0 * getDimension derOutput 1 * getDimension derOutput 2)
     = Some a"
    "backward_workspace ctx dataType
       (backward_plan derData derFilters data' filters' derOutput) = Some t"
    by auto
  with h show "fst (backward dataType ctx derData derFilters derBiases data' filters'
                      derOutput G)
                = Inr (passError ctx vlSuccess)"
    by (intro backward_succeeds [OF ps]) simp_all
qed

lemma refContext_succeeds: "primitives_succeed refContext"
  by (simp add: primitives_succeed_def refContext_def)

text \<open>The amended statement at 5 data channels, 2 input channels per filter and 3
  filters, where neither division is exact.\<close>

theorem inexact_division_is_not_rejected_witness:
  "fst (forward vlTypeDouble refContext (mkTensor 1 1 1 2 2 2 (\<lambda>i. 0)) 0
          (mkTensor 1 1 1 5 2 5 (\<lambda>i. 1)) 1 (mkTensor 1 1 1 2 3 2 (\<lambda>i. 1)) nullTensor
          unitGeometry) = Inr vlSuccess \<and>
   fst (backward vlTypeDouble refContext (mkTensor 1 1 1 5 2 5 (\<lambda>i. 0)) nullTensor
          nullTensor (mkTensor 1 1 1 5 2 5 (\<lambda>i. 1)) (mkTensor 1 1 1 2 3 2 (\<lambda>i. 1))
          (mkTensor 1 1 1 3 2 3 (\<lambda>i. 1)) unitGeometry) = Inr vlSuccess"
proof -
  have pe: "passError refContext vlSuccess = vlSuccess" by (simp add: refContext_def)
  have "fst (forward vlTypeDouble refContext (mkTensor 1 1 1 2 2 2 (\<lambda>i. 0)) 0
          (mkTensor 1 1 1 5 2 5 (\<lambda>i. 1)) 1 (mkTensor 1 1 1 2 3 2 (\<lambda>i. 1)) nullTensor
          unitGeometry) = Inr (passError refContext vlSuccess)"
    by (rule inexact_division_is_not_rejected
          [OF refContext_succeeds, THEN conjunct2, THEN conjunct2, THEN conjunct1, THEN mp])
       (simp add: mkTensor_def nullTensor_def refContext_def)
  moreover
  have "fst (backward vlTypeDouble refContext (mkTensor 1 1 1 5 2 5 (\<lambda>i. 0)) nullTensor
          nullTensor (mkTensor 1 1 1 5 2 5 (\<lambda>i. 1)) (mkTensor 1 1 1 2 3 2 (\<lambda>i. 1))
          (mkTensor 1 1 1 3 2 3 (\<lambda>i. 1)) unitGeometry) = Inr (passError refContext vlSuccess)"
    by (rule inexact_division_is_not_rejected
          [OF refContext_succeeds, THEN conjunct2, THEN conjunct2, THEN conjunct2, THEN mp])
       (simp add: mkTensor_def nullTensor_def refContext_def backward_allOnes_def
          backward_workspace_def backward_numGroups_def backward_plan_def
          backward_filtersVolume_def)
  ultimately show ?thesis by (simp add: pe)
qed

text \<open>The amended statement at a filter gradient whose volume differs from the
  filters'.\<close>

theorem backward_plan_from_input_gradient_witness:
  "nonNull (mkTensor 1 1 1 1 1 1 (\<lambda>i. 0 :: int)) \<and>
   backward_plan (mkTensor 1 1 1 1 1 1 (\<lambda>i. 0 :: int)) (mkTensor 2 1 1 1 1 1 (\<lambda>i. 0))
       (mkTensor 1 1 1 1 1 1 (\<lambda>i. 5)) (mkTensor 1 1 1 1 1 1 (\<lambda>i. 7))
       (mkTensor 1 1 1 1 1 1 (\<lambda>i. 3))
     = backward_plan (mkTensor 1 1 1 1 1 1 (\<lambda>i. 0 :: int)) nullTensor nullTensor
         (mkTensor 1 1 1 1 1 1 (\<lambda>i. 7)) (mkTensor 1 1 1 1 1 1 (\<lambda>i. 3))"
proof -
  have nn: "nonNull (mkTensor 1 1 1 1 1 1 (\<lambda>i. 0 :: int))" by (simp add: mkTensor_def)
  from nn show ?thesis by (intro conjI backward_plan_from_input_gradient)
qed

subsection \<open>Group addressing and the backward pass\<close>

lemma gemm_opA_reads:
  assumes "i < gemm_m c" "l < gemm_k c" and A: "\<And>x. x \<in> gemm_readsA c \<Longrightarrow> A x = A' x"
  shows "gemm_opA c A i l = gemm_opA c A' i l"
proof -
  have "(if gemm_transA c = CHR ''n'' then gemm_offA c + i + gemm_lda c * l
         else gemm_offA c + l + gemm_lda c * i) \<in> gemm_readsA c"
    unfolding gemm_readsA_def using assms(1,2) by (intro image_eqI [where x = "(i, l)"]) auto
  from A [OF this] show ?thesis by (simp add: gemm_opA_def split: if_splits)
qed

lemma gemm_opB_reads:
  assumes "l < gemm_k c" "j < gemm_n c" and B: "\<And>x. x \<in> gemm_readsB c \<Longrightarrow> B x = B' x"
  shows "gemm_opB c B l j = gemm_opB c B' l j"
proof -
  have "(if gemm_transB c = CHR ''n'' then gemm_offB c + l + gemm_ldb c * j
         else gemm_offB c + j + gemm_ldb c * l) \<in> gemm_readsB c"
    unfolding gemm_readsB_def using assms(1,2) by (intro image_eqI [where x = "(l, j)"]) auto
  from B [OF this] show ?thesis by (simp add: gemm_opB_def split: if_splits)
qed

lemma gemm_ref_reads:
  assumes A: "\<And>x. x \<in> gemm_readsA c \<Longrightarrow> A x = A' x"
    and B: "\<And>x. x \<in> gemm_readsB c \<Longrightarrow> B x = B' x"
  shows "gemm_ref c A B C = gemm_ref c A' B' C"
proof
  fix idx
  let ?i = "(idx - gemm_offC c) mod gemm_ldc c" and ?j = "(idx - gemm_offC c) div gemm_ldc c"
  show "gemm_ref c A B C idx = gemm_ref c A' B' C idx"
  proof (cases "?i < gemm_m c \<and> ?j < gemm_n c")
    case False
    then show ?thesis by (auto simp: gemm_ref_def)
  next
    case True
    have "gemm_opA c A ?i l * gemm_opB c B l ?j = gemm_opA c A' ?i l * gemm_opB c B' l ?j"
      if "l < gemm_k c" for l
      using gemm_opA_reads [of ?i c l A A'] gemm_opB_reads [of l c ?j B B'] True that A B
      by simp
    then have "(\<Sum>l<gemm_k c. gemm_opA c A ?i l * gemm_opB c B l ?j)
                       = (\<Sum>l<gemm_k c. gemm_opA c A' ?i l * gemm_opB c B' l ?j)"
      by (intro sum.cong) simp_all
    then show ?thesis by (simp add: gemm_ref_def)
  qed
qed

lemma gemm_ref_writes:
  assumes "idx \<notin> gemm_writesC c"
  shows "gemm_ref c A B C idx = C idx"
proof (rule ccontr)
  assume neq: "gemm_ref c A B C idx \<noteq> C idx"
  let ?i = "(idx - gemm_offC c) mod gemm_ldc c" and ?j = "(idx - gemm_offC c) div gemm_ldc c"
  from neq have cond: "gemm_offC c \<le> idx" "?i < gemm_m c" "?j < gemm_n c"
    by (auto simp: gemm_ref_def split: if_splits)
  have "idx = gemm_offC c + ?i + gemm_ldc c * ?j" using cond(1) by simp
  then have "idx \<in> gemm_writesC c"
    unfolding gemm_writesC_def using cond(2,3) by (intro image_eqI [where x = "(?i, ?j)"]) auto
  with assms show False by simp
qed

lemma block_memberI:
  "x < stride \<Longrightarrow> base + stride * g + x \<in> group_block base stride g"
  by (simp add: group_block_def)

lemma group_block_disjoint:
  assumes "g \<noteq> g'"
  shows "group_block base stride g \<inter> group_block base stride g' = {}"
proof -
  have d: "group_block base stride a \<inter> group_block base stride b = {}" if "a < b" for a b
  proof -
    from that have "Suc a \<le> b" by simp
    then have "stride * Suc a \<le> stride * b" by (rule mult_le_mono2)
    then show ?thesis by (auto simp: group_block_def)
  qed
  from assms consider "g < g'" | "g' < g" by linarith
  then show ?thesis using d [of g g'] d [of g' g] by cases auto
qed

lemma forward_gemm_footprint:
  "gemm_readsA (forward_gemm dT P oM dM oOff g)
     \<subseteq> group_block 0 (numOutputPixels P * filtersVolume P) g"
  "gemm_readsB (forward_gemm dT P oM dM oOff g)
     \<subseteq> group_block 0 (filtersVolume P * numFiltersPerGroup P) g"
  "gemm_writesC (forward_gemm dT P oM dM oOff g)
     \<subseteq> group_block oOff (numOutputPixels P * numFiltersPerGroup P) g"
proof -
  show "gemm_readsA (forward_gemm dT P oM dM oOff g)
     \<subseteq> group_block 0 (numOutputPixels P * filtersVolume P) g"
    using block_memberI [OF block_index_less, of _ "numOutputPixels P" _ "filtersVolume P" 0 g]
    by (auto simp: gemm_readsA_def forward_gemm_def tempGrpOffset_def add.assoc)
  show "gemm_readsB (forward_gemm dT P oM dM oOff g)
     \<subseteq> group_block 0 (filtersVolume P * numFiltersPerGroup P) g"
    using block_memberI [OF block_index_less, of _ "filtersVolume P" _ "numFiltersPerGroup P" 0 g]
    by (auto simp: gemm_readsB_def forward_gemm_def filterGrpOffset_def add.assoc)
  show "gemm_writesC (forward_gemm dT P oM dM oOff g)
     \<subseteq> group_block oOff (numOutputPixels P * numFiltersPerGroup P) g"
    using block_memberI [OF block_index_less, of _ "numOutputPixels P" _ "numFiltersPerGroup P" oOff g]
    by (auto simp: gemm_writesC_def forward_gemm_def outputGrpOffset_def add.assoc)
qed


lemma backward_data_gemm_footprint:
  "gemm_readsA (backward_data_gemm P dOff g :: ('a::comm_semiring_1) gemm_call)
     \<subseteq> group_block dOff (numOutputPixels P * numFiltersPerGroup P) g"
  "gemm_readsB (backward_data_gemm P dOff g :: ('a::comm_semiring_1) gemm_call)
     \<subseteq> group_block 0 (filtersVolume P * numFiltersPerGroup P) g"
  "gemm_writesC (backward_data_gemm P dOff g :: ('a::comm_semiring_1) gemm_call)
     \<subseteq> group_block 0 (numOutputPixels P * filtersVolume P) g"
proof -
  show "gemm_readsA (backward_data_gemm P dOff g :: 'a gemm_call)
     \<subseteq> group_block dOff (numOutputPixels P * numFiltersPerGroup P) g"
    using block_memberI [OF block_index_less, of _ "numOutputPixels P" _ "numFiltersPerGroup P" dOff g]
    by (auto simp: gemm_readsA_def backward_data_gemm_def outputGrpOffset_def add.assoc)
  show "gemm_readsB (backward_data_gemm P dOff g :: 'a gemm_call)
     \<subseteq> group_block 0 (filtersVolume P * numFiltersPerGroup P) g"
    using block_memberI [OF block_index_less, of _ "filtersVolume P" _ "numFiltersPerGroup P" 0 g]
    by (auto simp: gemm_readsB_def backward_data_gemm_def filterGrpOffset_def add.assoc)
  show "gemm_writesC (backward_data_gemm P dOff g :: 'a gemm_call)
     \<subseteq> group_block 0 (numOutputPixels P * filtersVolume P) g"
    using block_memberI [OF block_index_less, of _ "numOutputPixels P" _ "filtersVolume P" 0 g]
    by (auto simp: gemm_writesC_def backward_data_gemm_def tempGrpOffset_def add.assoc)
qed

lemma backward_filters_gemm_footprint:
  "gemm_readsA (backward_filters_gemm dT P dOff img g :: ('a::comm_semiring_1) gemm_call)
     \<subseteq> group_block 0 (numOutputPixels P * filtersVolume P) g"
  "gemm_readsB (backward_filters_gemm dT P dOff img g :: ('a::comm_semiring_1) gemm_call)
     \<subseteq> group_block dOff (numOutputPixels P * numFiltersPerGroup P) g"
  "gemm_writesC (backward_filters_gemm dT P dOff img g :: ('a::comm_semiring_1) gemm_call)
     \<subseteq> group_block 0 (filtersVolume P * numFiltersPerGroup P) g"
proof -
  show "gemm_readsA (backward_filters_gemm dT P dOff img g :: 'a gemm_call)
     \<subseteq> group_block 0 (numOutputPixels P * filtersVolume P) g"
    using block_memberI [OF block_index_less, of _ "numOutputPixels P" _ "filtersVolume P" 0 g]
    by (auto simp: gemm_readsA_def backward_filters_gemm_def tempGrpOffset_def add.assoc)
  show "gemm_readsB (backward_filters_gemm dT P dOff img g :: 'a gemm_call)
     \<subseteq> group_block dOff (numOutputPixels P * numFiltersPerGroup P) g"
    using block_memberI [OF block_index_less, of _ "numOutputPixels P" _ "numFiltersPerGroup P" dOff g]
    by (auto simp: gemm_readsB_def backward_filters_gemm_def outputGrpOffset_def add.assoc)
  show "gemm_writesC (backward_filters_gemm dT P dOff img g :: 'a gemm_call)
     \<subseteq> group_block 0 (filtersVolume P * numFiltersPerGroup P) g"
    using block_memberI [OF block_index_less, of _ "filtersVolume P" _ "numFiltersPerGroup P" 0 g]
    by (auto simp: gemm_writesC_def backward_filters_gemm_def filterGrpOffset_def add.assoc)
qed

text \<open>C8: in the grouped multiply of the forward pass, of the input-gradient branch
  and of the filter-gradient branch, the offset of group \<open>g\<close> in each buffer
  is \<open>g\<close> times a fixed stride (\<open>filtersVolume *
  numFiltersPerGroup\<close> for the filters and the filter gradient,
  \<open>numOutputPixels * filtersVolume\<close> for the patch matrix,
  \<open>numOutputPixels * numFiltersPerGroup\<close> for the output and the output
  gradient, after the image's offset), every element the multiply of group
  \<open>g\<close> reads or writes lies in the sub-block of group \<open>g\<close>, and
  the sub-blocks of two different groups are disjoint.\<close>

theorem grouped_multiplies_stay_in_their_blocks:
  fixes oM dM :: "'a::comm_semiring_1"
  shows
  "gemm_offB (forward_gemm dT P oM dM oOff g) = g * (filtersVolume P * numFiltersPerGroup P) \<and>
   gemm_offA (forward_gemm dT P oM dM oOff g) = g * (numOutputPixels P * filtersVolume P) \<and>
   gemm_offC (forward_gemm dT P oM dM oOff g)
     = oOff + g * (numOutputPixels P * numFiltersPerGroup P) \<and>
   gemm_offA (backward_data_gemm P dOff g :: 'a gemm_call)
     = dOff + g * (numOutputPixels P * numFiltersPerGroup P) \<and>
   gemm_offB (backward_data_gemm P dOff g :: 'a gemm_call)
     = g * (filtersVolume P * numFiltersPerGroup P) \<and>
   gemm_offC (backward_data_gemm P dOff g :: 'a gemm_call)
     = g * (numOutputPixels P * filtersVolume P) \<and>
   gemm_offA (backward_filters_gemm dT P dOff img g :: 'a gemm_call)
     = g * (numOutputPixels P * filtersVolume P) \<and>
   gemm_offB (backward_filters_gemm dT P dOff img g :: 'a gemm_call)
     = dOff + g * (numOutputPixels P * numFiltersPerGroup P) \<and>
   gemm_offC (backward_filters_gemm dT P dOff img g :: 'a gemm_call)
     = g * (filtersVolume P * numFiltersPerGroup P) \<and>
   gemm_within (forward_gemm dT P oM dM oOff g)
     (group_block 0 (numOutputPixels P * filtersVolume P) g)
     (group_block 0 (filtersVolume P * numFiltersPerGroup P) g)
     (group_block oOff (numOutputPixels P * numFiltersPerGroup P) g) \<and>
   gemm_within (backward_data_gemm P dOff g :: 'a gemm_call)
     (group_block dOff (numOutputPixels P * numFiltersPerGroup P) g)
     (group_block 0 (filtersVolume P * numFiltersPerGroup P) g)
     (group_block 0 (numOutputPixels P * filtersVolume P) g) \<and>
   gemm_within (backward_filters_gemm dT P dOff img g :: 'a gemm_call)
     (group_block 0 (numOutputPixels P * filtersVolume P) g)
     (group_block dOff (numOutputPixels P * numFiltersPerGroup P) g)
     (group_block 0 (filtersVolume P * numFiltersPerGroup P) g) \<and>
   (g \<noteq> g' \<longrightarrow> group_block base stride g \<inter> group_block base stride g' = {})"
proof -
  have offs:
    "gemm_offB (forward_gemm dT P oM dM oOff g) = g * (filtersVolume P * numFiltersPerGroup P)"
    "gemm_offA (forward_gemm dT P oM dM oOff g) = g * (numOutputPixels P * filtersVolume P)"
    "gemm_offC (forward_gemm dT P oM dM oOff g)
       = oOff + g * (numOutputPixels P * numFiltersPerGroup P)"
    "gemm_offA (backward_data_gemm P dOff g :: 'a gemm_call)
       = dOff + g * (numOutputPixels P * numFiltersPerGroup P)"
    "gemm_offB (backward_data_gemm P dOff g :: 'a gemm_call)
       = g * (filtersVolume P * numFiltersPerGroup P)"
    "gemm_offC (backward_data_gemm P dOff g :: 'a gemm_call)
       = g * (numOutputPixels P * filtersVolume P)"
    "gemm_offA (backward_filters_gemm dT P dOff img g :: 'a gemm_call)
       = g * (numOutputPixels P * filtersVolume P)"
    "gemm_offB (backward_filters_gemm dT P dOff img g :: 'a gemm_call)
       = dOff + g * (numOutputPixels P * numFiltersPerGroup P)"
    "gemm_offC (backward_filters_gemm dT P dOff img g :: 'a gemm_call)
       = g * (filtersVolume P * numFiltersPerGroup P)"
    by (simp_all add: forward_gemm_def backward_data_gemm_def backward_filters_gemm_def
          filterGrpOffset_def tempGrpOffset_def outputGrpOffset_def)
  have w1: "gemm_within (forward_gemm dT P oM dM oOff g)
     (group_block 0 (numOutputPixels P * filtersVolume P) g)
     (group_block 0 (filtersVolume P * numFiltersPerGroup P) g)
     (group_block oOff (numOutputPixels P * numFiltersPerGroup P) g)"
    unfolding gemm_within_def by (intro conjI forward_gemm_footprint)
  have w2: "gemm_within (backward_data_gemm P dOff g :: 'a gemm_call)
     (group_block dOff (numOutputPixels P * numFiltersPerGroup P) g)
     (group_block 0 (filtersVolume P * numFiltersPerGroup P) g)
     (group_block 0 (numOutputPixels P * filtersVolume P) g)"
    unfolding gemm_within_def by (intro conjI backward_data_gemm_footprint)
  have w3: "gemm_within (backward_filters_gemm dT P dOff img g :: 'a gemm_call)
     (group_block 0 (numOutputPixels P * filtersVolume P) g)
     (group_block dOff (numOutputPixels P * numFiltersPerGroup P) g)
     (group_block 0 (filtersVolume P * numFiltersPerGroup P) g)"
    unfolding gemm_within_def by (intro conjI backward_filters_gemm_footprint)
  have d: "g \<noteq> g' \<longrightarrow> group_block base stride g \<inter> group_block base stride g' = {}"
    using group_block_disjoint by blast
  show ?thesis using offs w1 w2 w3 d by (intro conjI)
qed

text \<open>The theorem at two groups of the forward pass: the elements written for group
  0 and for group 1 are disjoint.\<close>

theorem grouped_multiplies_stay_in_their_blocks_witness:
  "gemm_writesC (forward_gemm vlTypeFloat examplePlan (2::int) 3 24 0)
     \<inter> gemm_writesC (forward_gemm vlTypeFloat examplePlan (2::int) 3 24 1) = {} \<and>
   gemm_offC (forward_gemm vlTypeFloat examplePlan (2::int) 3 24 1) = 36"
proof -
  let ?c = "\<lambda>g. forward_gemm vlTypeFloat examplePlan (2::int) 3 24 g"
  let ?B = "group_block 24 (numOutputPixels examplePlan * numFiltersPerGroup examplePlan)"
  note t0 = grouped_multiplies_stay_in_their_blocks
    [where dT = vlTypeFloat and P = examplePlan and oM = "2::int" and dM = 3 and oOff = 24
       and g = 0 and g' = 1 and base = 24
       and stride = "numOutputPixels examplePlan * numFiltersPerGroup examplePlan"]
  note t1 = grouped_multiplies_stay_in_their_blocks
    [where dT = vlTypeFloat and P = examplePlan and oM = "2::int" and dM = 3 and oOff = 24
       and g = 1]
  from t0 have s0: "gemm_writesC (?c 0) \<subseteq> ?B 0" by (simp add: gemm_within_def)
  from t1 have s1: "gemm_writesC (?c 1) \<subseteq> ?B 1" by (simp add: gemm_within_def)
  from t0 have dj: "?B 0 \<inter> ?B 1 = {}" by simp
  from t1 have o: "gemm_offC (?c 1) = 36" by (simp add: examplePlan_def)
  from s0 s1 dj o show ?thesis by blast
qed














lemma backward_data_groups_frame:
  "bw_derData (flow_state (backward_data_groups ctx P filters derOutput img dOff g st))
     = bw_derData st \<and>
   bw_derFilters (flow_state (backward_data_groups ctx P filters derOutput img dOff g st))
     = bw_derFilters st \<and>
   bw_derBiases (flow_state (backward_data_groups ctx P filters derOutput img dOff g st))
     = bw_derBiases st"
proof (induction "numGroups P - g" arbitrary: g st)
  case 0
  then show ?case by (simp add: backward_data_groups.simps)
next
  case (Suc n)
  then have lt: "g < numGroups P" and n: "n = numGroups P - Suc g" by simp_all
  let ?c = "backward_data_gemm P dOff g :: 'a gemm_call"
  let ?r = "gemm ctx ?c (getMemory derOutput) (getMemory filters) (bw_temp st)"
  let ?st1 = "st\<lparr>bw_temp := snd ?r, bw_error := Some (fst ?r),
                  bw_trace := bw_trace st @ [(img, Gemm ?c, fst ?r)]\<rparr>"
  define st1 where "st1 = ?st1"
  have step: "backward_data_groups ctx P filters derOutput img dOff g st
                = (if fst ?r \<noteq> vlSuccess then Exit st1
                   else backward_data_groups ctx P filters derOutput img dOff (Suc g) st1)"
    using lt by (subst backward_data_groups.simps) (simp add: Let_def st1_def)
  have same: "bw_derData st1 = bw_derData st" "bw_derFilters st1 = bw_derFilters st"
    "bw_derBiases st1 = bw_derBiases st"
    by (simp_all add: st1_def)
  show ?case unfolding step using Suc.hyps(1) [OF n, of st1] same by simp
qed

lemma backward_data_step_frame:
  "bw_derFilters (flow_state (backward_data_step ctx P derData filters derOutput G img st))
     = bw_derFilters st"
  "bw_derBiases (flow_state (backward_data_step ctx P derData filters derOutput G img st))
     = bw_derBiases st"
proof -
  let ?fl = "backward_data_groups ctx P filters derOutput img (imageOffset derOutput img) 0 st"
  have "bw_derFilters (flow_state ?fl) = bw_derFilters st"
    "bw_derBiases (flow_state ?fl) = bw_derBiases st"
    using backward_data_groups_frame [of ctx P filters derOutput img _ 0 st] by simp_all
  then show
    "bw_derFilters (flow_state (backward_data_step ctx P derData filters derOutput G img st))
       = bw_derFilters st"
    "bw_derBiases (flow_state (backward_data_step ctx P derData filters derOutput G img st))
       = bw_derBiases st"
    by (cases ?fl; simp add: backward_data_step_def Let_def)+
qed

lemma backward_filters_groups_frame:
  "bw_derData (flow_state (backward_filters_groups ctx dT P derOutput img dOff g st))
     = bw_derData st \<and>
   bw_temp (flow_state (backward_filters_groups ctx dT P derOutput img dOff g st))
     = bw_temp st \<and>
   bw_derBiases (flow_state (backward_filters_groups ctx dT P derOutput img dOff g st))
     = bw_derBiases st"
proof (induction "numGroups P - g" arbitrary: g st)
  case 0
  then show ?case by (simp add: backward_filters_groups.simps)
next
  case (Suc n)
  then have lt: "g < numGroups P" and n: "n = numGroups P - Suc g" by simp_all
  let ?c = "backward_filters_gemm dT P dOff img g :: 'a gemm_call"
  let ?r = "gemm ctx ?c (bw_temp st) (getMemory derOutput) (bw_derFilters st)"
  let ?st1 = "st\<lparr>bw_derFilters := snd ?r, bw_error := Some (fst ?r),
                  bw_trace := bw_trace st @ [(img, Gemm ?c, fst ?r)]\<rparr>"
  define st1 where "st1 = ?st1"
  have step: "backward_filters_groups ctx dT P derOutput img dOff g st
                = (if fst ?r \<noteq> vlSuccess then Exit st1
                   else backward_filters_groups ctx dT P derOutput img dOff (Suc g) st1)"
    using lt by (subst backward_filters_groups.simps) (simp add: Let_def st1_def)
  have same: "bw_derData st1 = bw_derData st" "bw_temp st1 = bw_temp st"
    "bw_derBiases st1 = bw_derBiases st"
    by (simp_all add: st1_def)
  show ?case unfolding step using Suc.hyps(1) [OF n, of st1] same by simp
qed

lemma backward_filters_step_frame:
  "bw_derData (flow_state
       (backward_filters_step ctx dT P derFilters data derOutput G img st)) = bw_derData st"
  "bw_derBiases (flow_state
       (backward_filters_step ctx dT P derFilters data derOutput G img st)) = bw_derBiases st"
  using backward_filters_groups_frame [of ctx dT P derOutput img "imageOffset derOutput img" 0]
  by (simp_all add: backward_filters_step_def Let_def)


lemma backward_bias_gemv_value:
  "gemv_ref (backward_bias_gemv dT P derOutput dOff img) D ones y c =
     (if c < getDepth derOutput
      then (\<Sum>p<numOutputPixels P. D (dOff + p + numOutputPixels P * c) * ones p)
           + of_bool (0 < img) * y c
      else y c)"
  by (simp add: gemv_ref_def backward_bias_gemv_def)

lemma backward_image_bias:
  fixes ctx :: "('a::comm_semiring_1) Context"
  assumes ps: "primitives_succeed ctx" and bc: "blas_conforms ctx"
    and nb: "nonNull derBiases"
    and ones: "\<forall>i<numOutputPixels P. allOnes i = 1"
  shows "\<exists>st'. backward_image ctx dT P allOnes derData derFilters derBiases data filters
                   derOutput G img st = Continue st' \<and>
           (\<forall>c. bw_derBiases st' c =
              (if c < getDepth derOutput
               then (\<Sum>p<numOutputPixels P.
                       getMemory derOutput (imageOffset derOutput img + p
                                              + numOutputPixels P * c))
                    + of_bool (0 < img) * bw_derBiases st c
               else bw_derBiases st c))"
proof -
  let ?c = "backward_bias_gemv dT P derOutput (imageOffset derOutput img) img :: 'a gemv_call"
  let ?y1 = "gemv_ref ?c (getMemory derOutput) allOnes (bw_derBiases st)"
  let ?st1 = "st\<lparr>bw_derBiases := ?y1, bw_error := Some vlSuccess,
                  bw_trace := bw_trace st @ [(img, Gemv ?c, vlSuccess)]\<rparr>"
  have s1: "backward_bias_step ctx dT P allOnes derBiases derOutput img st = Continue ?st1"
    using nb bc by (simp add: backward_bias_step_def Let_def blas_conforms_def)
  from backward_data_step_succeed [OF ps, of P derData filters derOutput G img ?st1]
  obtain st2 where
    s2: "backward_data_step ctx P derData filters derOutput G img ?st1 = Continue st2"
    by (elim exE conjE) (rule that, assumption+)
  from backward_filters_step_succeed [OF ps, of dT P derFilters data derOutput G img st2]
  obtain st3 where
    s3: "backward_filters_step ctx dT P derFilters data derOutput G img st2 = Continue st3"
    by (elim exE conjE) (rule that, assumption+)
  have b2: "bw_derBiases st2 = ?y1"
    using backward_data_step_frame(2) [of ctx P derData filters derOutput G img ?st1] s2
    by simp
  have b3: "bw_derBiases st3 = ?y1"
    using backward_filters_step_frame(2) [of ctx dT P derFilters data derOutput G img st2] s3 b2
    by simp
  have run: "backward_image ctx dT P allOnes derData derFilters derBiases data filters
               derOutput G img st = Continue st3"
    using s1 s2 s3 by (simp add: backward_image_def)
  have sum1: "(\<Sum>p<numOutputPixels P.
                 getMemory derOutput (imageOffset derOutput img + p + numOutputPixels P * c)
                 * allOnes p)
              = (\<Sum>p<numOutputPixels P.
                   getMemory derOutput (imageOffset derOutput img + p
                                          + numOutputPixels P * c))" for c
    using ones by (intro sum.cong) simp_all
  show ?thesis using run b3 by (simp add: backward_bias_gemv_value sum1)
qed

lemma backward_images_bias:
  fixes ctx :: "('a::comm_semiring_1) Context"
  assumes ps: "primitives_succeed ctx" and bc: "blas_conforms ctx"
    and nb: "nonNull derBiases"
    and ones: "\<forall>i<numOutputPixels P. allOnes i = 1"
  shows "\<exists>st'. backward_images ctx dT P allOnes derData derFilters derBiases data filters
                   derOutput G img st = Continue st' \<and>
           (\<forall>c. bw_derBiases st' c =
              (if c < getDepth derOutput \<and> img < getDimension derOutput 4
               then (\<Sum>i = img..<getDimension derOutput 4. \<Sum>p<numOutputPixels P.
                       getMemory derOutput (imageOffset derOutput i + p
                                              + numOutputPixels P * c))
                    + of_bool (0 < img) * bw_derBiases st c
               else bw_derBiases st c))"
proof (induction "getDimension derOutput 4 - img" arbitrary: img st)
  case 0
  then show ?case by (simp add: backward_images.simps)
next
  case (Suc n)
  then have lt: "img < getDimension derOutput 4"
    and n: "n = getDimension derOutput 4 - Suc img" by simp_all
  let ?S = "\<lambda>i c. \<Sum>p<numOutputPixels P.
                       getMemory derOutput (imageOffset derOutput i + p
                                              + numOutputPixels P * c)"
  from backward_image_bias [OF ps bc nb ones, of dT derData derFilters data filters
         derOutput G img st]
  obtain st1 where
    one: "backward_image ctx dT P allOnes derData derFilters derBiases data filters
            derOutput G img st = Continue st1"
    and b1: "\<forall>c. bw_derBiases st1 c =
              (if c < getDepth derOutput
               then ?S img c + of_bool (0 < img) * bw_derBiases st c
               else bw_derBiases st c)"
    by (elim exE conjE) (rule that, assumption+)
  from Suc.hyps(1) [OF n, of st1] obtain st' where
    run: "backward_images ctx dT P allOnes derData derFilters derBiases data filters
            derOutput G (Suc img) st1 = Continue st'"
    and b': "\<forall>c. bw_derBiases st' c =
              (if c < getDepth derOutput \<and> Suc img < getDimension derOutput 4
               then (\<Sum>i = Suc img..<getDimension derOutput 4. ?S i c)
                    + of_bool (0 < Suc img) * bw_derBiases st1 c
               else bw_derBiases st1 c)"
    by (elim exE conjE) (rule that, assumption+)
  have run0: "backward_images ctx dT P allOnes derData derFilters derBiases data filters
                derOutput G img st = Continue st'"
    using lt one run by (subst backward_images.simps) simp
  have split: "(\<Sum>i = img..<getDimension derOutput 4. ?S i c)
                 = ?S img c + (\<Sum>i = Suc img..<getDimension derOutput 4. ?S i c)" for c
    using lt by (rule sum.atLeast_Suc_lessThan)
  have V: "bw_derBiases st' c =
              (if c < getDepth derOutput \<and> img < getDimension derOutput 4
               then (\<Sum>i = img..<getDimension derOutput 4. ?S i c)
                    + of_bool (0 < img) * bw_derBiases st c
               else bw_derBiases st c)" for c
  proof (cases "c < getDepth derOutput")
    case False
    then show ?thesis using b' b1 by simp
  next
    case True
    show ?thesis
    proof (cases "Suc img < getDimension derOutput 4")
      case True
      with \<open>c < getDepth derOutput\<close>
      have "bw_derBiases st' c = (\<Sum>i = Suc img..<getDimension derOutput 4. ?S i c)
              + bw_derBiases st1 c"
        using b' by simp
      moreover have "bw_derBiases st1 c = ?S img c + of_bool (0 < img) * bw_derBiases st c"
        using b1 \<open>c < getDepth derOutput\<close> by simp
      ultimately show ?thesis using lt \<open>c < getDepth derOutput\<close>
        by (simp only: split if_True simp_thms) (simp add: add.assoc add.commute add.left_commute)
    next
      case False
      then have e: "bw_derBiases st' c = bw_derBiases st1 c" using b' by simp
      from False lt have "Suc img = getDimension derOutput 4" by simp
      then have "(\<Sum>i = Suc img..<getDimension derOutput 4. ?S i c) = 0" by simp
      then show ?thesis using e b1 lt \<open>c < getDepth derOutput\<close>
        by (simp only: split if_True simp_thms) simp
    qed
  qed
  show ?case using run0 V by blast
qed


lemma backward_unfold:
  fixes ctx :: "('a::comm_semiring_1) Context"
  assumes nn: "nonNull derOutput"
    and P: "P = backward_plan derData derFilters data filters derOutput"
    and ao: "backward_allOnes ctx dataType derBiases (numOutputPixels P) = Some allOnesMemory"
    and a1: "nonNull derData \<longrightarrow> nonNull filters"
    and a2: "\<not> nonNull derData \<and> nonNull derFilters \<longrightarrow> nonNull data"
    and ng: "numGroups P \<noteq> 0"
    and ws: "backward_workspace ctx dataType P = Some tempMemory"
    and run: "backward_images ctx dataType P allOnesMemory derData derFilters derBiases data
                filters derOutput G 0
                \<lparr>bw_derData = getMemory derData, bw_derFilters = getMemory derFilters,
                 bw_derBiases = getMemory derBiases, bw_temp = tempMemory, bw_error = None,
                 bw_trace = []\<rparr> = Continue st"
  shows "backward dataType ctx derData derFilters derBiases data filters derOutput G
           = backward_done ctx st"
proof -
  have nop: "numOutputPixels P
    = getDimension derOutput 0 * getDimension derOutput 1 * getDimension derOutput 2"
    by (simp add: P backward_plan_def Let_def)
  have ng': "backward_numGroups derData derFilters data filters \<noteq> 0"
    using ng by (simp add: P backward_plan_def Let_def)
  then have d1: "nonNull derData \<longrightarrow> getDimension filters 3 \<noteq> 0"
    and d2: "\<not> nonNull derData \<and> nonNull derFilters \<longrightarrow> getDimension derFilters 3 \<noteq> 0"
    by (auto simp: backward_numGroups_def intro: ccontr)
  have ao2: "backward_allOnes ctx dataType derBiases
               (getDimension derOutput 0 * getDimension derOutput 1 * getDimension derOutput 2)
             = Some allOnesMemory"
    using ao by (simp only: nop)
  show ?thesis using nn ao2 a1 a2 d1 d2 ng' ws run
    by (auto simp: backward_def Let_def P [symmetric])
qed



text \<open>Without the assumption on \<^verbatim>\<open>getDepth\<close>: the reduction covers the channels
  below \<^verbatim>\<open>derOutput.getDepth()\<close> and leaves every other element of the destination
  as it was.\<close>

lemma bias_gradient_up_to_getDepth:
  fixes ctx :: "('a::comm_semiring_1) Context"
  assumes ps: "primitives_succeed ctx" and bc: "blas_conforms ctx"
    and nn: "nonNull derOutput" and nb: "nonNull derBiases"
    and P: "P = backward_plan derData derFilters data filters derOutput"
    and ao: "getAllOnes ctx dataType (numOutputPixels P) = Some allOnesMemory"
    and ones: "\<forall>i<numOutputPixels P. allOnesMemory i = 1"
    and a1: "nonNull derData \<longrightarrow> nonNull filters"
    and a2: "\<not> nonNull derData \<and> nonNull derFilters \<longrightarrow> nonNull data"
    and ng: "numGroups P \<noteq> 0"
    and ws: "backward_workspace ctx dataType P = Some tempMemory"
    and n0: "0 < getDimension derOutput 4"
  shows "bw_derBiases
           (snd (backward dataType ctx derData derFilters derBiases data filters derOutput G)) c
         = (if c < getDepth derOutput
            then (\<Sum>img<getDimension derOutput 4. \<Sum>p<numOutputPixels P.
                    getMemory derOutput (imageOffset derOutput img + p + numOutputPixels P * c))
            else getMemory derBiases c)"
proof -
  let ?st0 = "\<lparr>bw_derData = getMemory derData, bw_derFilters = getMemory derFilters,
               bw_derBiases = getMemory derBiases, bw_temp = tempMemory, bw_error = None,
               bw_trace = []\<rparr>"
  have ao': "backward_allOnes ctx dataType derBiases (numOutputPixels P) = Some allOnesMemory"
    using ao nb by (simp add: backward_allOnes_def)
  from backward_images_bias [OF ps bc nb ones, of dataType derData derFilters data filters
         derOutput G 0 ?st0]
  obtain st where
    run: "backward_images ctx dataType P allOnesMemory derData derFilters derBiases data
            filters derOutput G 0 ?st0 = Continue st"
    and b: "\<forall>c. bw_derBiases st c =
              (if c < getDepth derOutput \<and> 0 < getDimension derOutput 4
               then (\<Sum>i = 0..<getDimension derOutput 4. \<Sum>p<numOutputPixels P.
                       getMemory derOutput (imageOffset derOutput i + p
                                              + numOutputPixels P * c))
                    + of_bool (0 < (0::nat)) * bw_derBiases ?st0 c
               else bw_derBiases ?st0 c)"
    by (elim exE conjE) (rule that, assumption+)
  have "snd (backward dataType ctx derData derFilters derBiases data filters derOutput G) = st"
    using backward_unfold [OF nn P ao' a1 a2 ng ws run]
    by (simp add: backward_done_def split: option.splits)
  then show ?thesis using b n0 by (simp add: atLeast0LessThan)
qed

subsection \<open>Filter gradient and input gradient\<close>






















end
